theory Spec2Isabelle
  imports
    Complex_Main
    "HOL-Library.AList"
    "HOL-Library.Multiset"
    "HOL-Library.Char_ord"
    "HOL-Library.List_Lexorder"
begin

section \<open>Python values and string operations\<close>

text \<open>
  The program is Python. Strings are \<open>string\<close>; the string methods below are the
  Python built-ins on ASCII text (a character outside ASCII is left alone by
  \<open>py_lower\<close> and \<open>py_upper_char\<close>, where Python would consult the Unicode tables).
  A Python \<open>dict\<close> keeps its keys in insertion order: it is an association list, with
  \<open>AList.update\<close> for \<open>d[k] = v\<close> (replace in place, or append at the end),
  \<open>AList.delete\<close> for \<open>del d[k]\<close> and \<open>map_of\<close> for the lookup.
  Floats are embedded as reals, the values of the finite floats: comparisons are exact,
  and a float product is the exact product rounded to the nearest double (see the
  section on window capture).
\<close>

text \<open>The exceptions the modelled code can meet. All of them are subclasses of
  Python's \<open>Exception\<close>; \<open>OtherException\<close> stands for any further one.\<close>

datatype exn =
    AttributeError
  | TypeError
  | ValueError
  | FileNotFoundError
  | IsADirectoryError
  | OSError
  | JSONDecodeError
  | TimeoutExpired
  | ZeroDivisionError
  | OverflowError
  | OtherException

definition bind_exn :: "exn + 'a \<Rightarrow> ('a \<Rightarrow> exn + 'b) \<Rightarrow> exn + 'b" where
  "bind_exn m f = (case m of Inl e \<Rightarrow> Inl e | Inr v \<Rightarrow> f v)"

definition lower_char :: "char \<Rightarrow> char" where
  "lower_char c =
     (if (65::nat) \<le> of_char c \<and> of_char c \<le> (90::nat)
      then char_of (of_char c + (32::nat)) else c)"

definition upper_char :: "char \<Rightarrow> char" where
  "upper_char c =
     (if (97::nat) \<le> of_char c \<and> of_char c \<le> (122::nat)
      then char_of (of_char c - (32::nat)) else c)"

text \<open>\<open>str.lower()\<close>.\<close>

definition py_lower :: "string \<Rightarrow> string" where
  "py_lower s = map lower_char s"

text \<open>\<open>str.capitalize()\<close>: first character upper case, the rest lower case.\<close>

definition py_capitalize :: "string \<Rightarrow> string" where
  "py_capitalize s = (case s of [] \<Rightarrow> [] | c # cs \<Rightarrow> upper_char c # map lower_char cs)"

text \<open>The ASCII characters \<open>str.strip()\<close> removes: tab, line feed, vertical tab, form
  feed, carriage return, the four separators 28 to 31, and the space.\<close>

definition is_space :: "char \<Rightarrow> bool" where
  "is_space c = ((9::nat) \<le> of_char c \<and> of_char c \<le> (13::nat)
     \<or> (28::nat) \<le> of_char c \<and> of_char c \<le> (32::nat))"

text \<open>\<open>str.isprintable()\<close> on one ASCII character: the codes 32 to 126.\<close>

definition is_printable :: "char \<Rightarrow> bool" where
  "is_printable c = ((32::nat) \<le> of_char c \<and> of_char c \<le> (126::nat))"

definition strip_while :: "(char \<Rightarrow> bool) \<Rightarrow> string \<Rightarrow> string" where
  "strip_while P s = rev (dropWhile P (rev (dropWhile P s)))"

text \<open>\<open>s.strip()\<close> and \<open>s.strip(chars)\<close>.\<close>

definition py_strip :: "string \<Rightarrow> string" where
  "py_strip s = strip_while is_space s"

definition py_strip_chars :: "string \<Rightarrow> string \<Rightarrow> string" where
  "py_strip_chars chars s = strip_while (\<lambda>c. c \<in> set chars) s"

text \<open>\<open>s.split(sep)\<close> for a one-character separator: never empty, \<open>''''.split('+')\<close>
  is \<open>['']\<close>.\<close>

fun py_split :: "char \<Rightarrow> string \<Rightarrow> string list" where
  "py_split sep [] = [[]]"
| "py_split sep (c # cs) =
     (if c = sep then [] # py_split sep cs
      else (case py_split sep cs of
              [] \<Rightarrow> [[c]]
            | p # ps \<Rightarrow> (c # p) # ps))"

text \<open>\<open>sep.join(parts)\<close>.\<close>

fun py_join :: "string \<Rightarrow> string list \<Rightarrow> string" where
  "py_join sep [] = []"
| "py_join sep [p] = p"
| "py_join sep (p # q # ps) = p @ sep @ py_join sep (q # ps)"

text \<open>\<open>s.startswith(prefix)\<close>, \<open>s.endswith(suffix)\<close>, \<open>s.isdigit()\<close> (ASCII digits) and
  \<open>s.rfind(c)\<close> (\<open>None\<close> for Python's -1).\<close>

definition py_startswith :: "string \<Rightarrow> string \<Rightarrow> bool" where
  "py_startswith prefix s = (take (length prefix) s = prefix)"


definition py_isdigit :: "string \<Rightarrow> bool" where
  "py_isdigit s =
     (s \<noteq> [] \<and> list_all (\<lambda>c. (48::nat) \<le> of_char c \<and> of_char c \<le> (57::nat)) s)"

fun py_rfind :: "char \<Rightarrow> string \<Rightarrow> nat option" where
  "py_rfind c [] = None"
| "py_rfind c (d # ds) =
     (case py_rfind c ds of
        Some i \<Rightarrow> Some (Suc i)
      | None \<Rightarrow> (if d = c then Some 0 else None))"


section \<open>Hotkey manager (core/hotkey\_manager.py)\<close>

subsection \<open>Key combination strings\<close>

text \<open>The dictionary \<open>key_map\<close> of \<open>parse_key_combo\<close>.\<close>

definition key_map :: "(string \<times> string) list" where
  "key_map =
     [(''ctrl'', ''<ctrl>''),
      (''control'', ''<ctrl>''),
      (''alt'', ''<alt>''),
      (''shift'', ''<shift>''),
      (''super'', ''<cmd>''),
      (''win'', ''<cmd>''),
      (''cmd'', ''<cmd>'')]"

text \<open>The body of the loop of \<open>parse_key_combo\<close>, for one part of the split string.
  The function-key branch and the last branch build the same string, as in the source.\<close>

definition parse_part :: "string \<Rightarrow> string" where
  "parse_part part0 =
     (let part = py_strip part0 in
      case map_of key_map part of
        Some k \<Rightarrow> k
      | None \<Rightarrow>
          if length part = 1 then part
          else if py_startswith ''f'' part \<and> py_isdigit (drop 1 part)
               then ''<'' @ part @ ''>''
          else ''<'' @ part @ ''>'')"

definition parse_key_combo :: "string \<Rightarrow> string" where
  "parse_key_combo combo_string =
     py_join ''+'' (map parse_part (py_split (CHR ''+'') (py_lower combo_string)))"

text \<open>The body of the loop of \<open>format_key_combo\<close>.\<close>

definition format_part :: "string \<Rightarrow> string" where
  "format_part part0 =
     (let part = py_capitalize (py_strip_chars ''<>'' part0) in
      if part = ''Cmd'' then ''Super'' else part)"

definition format_key_combo :: "string \<Rightarrow> string" where
  "format_key_combo pynput_combo =
     py_join ''+'' (map format_part (py_split (CHR ''+'') pynput_combo))"

text \<open>
  The canonical capitalized form of the specification, for a combo given as its modifier
  tokens and its trailing character: each modifier alias by its canonical name
  (\<open>Ctrl\<close>, \<open>Alt\<close>, \<open>Shift\<close>, \<open>Super\<close>), the character in upper case, joined by
  \<open>+\<close>. This definition follows the specification's words, not the source.
\<close>

definition spec_canonical_modifier :: "string \<Rightarrow> string" where
  "spec_canonical_modifier tok =
     (let t = py_lower tok in
      if t = ''ctrl'' \<or> t = ''control'' then ''Ctrl''
      else if t = ''alt'' then ''Alt''
      else if t = ''shift'' then ''Shift''
      else ''Super'')"

definition spec_canonical_form :: "string list \<Rightarrow> char \<Rightarrow> string" where
  "spec_canonical_form mods c =
     py_join ''+'' (map spec_canonical_modifier mods @ [[upper_char c]])"

text \<open>A modifier-alias token, in any casing.\<close>

definition is_modifier_alias :: "string \<Rightarrow> bool" where
  "is_modifier_alias tok = (map_of key_map (py_lower tok) \<noteq> None)"

text \<open>The combo string built from modifier tokens and one trailing character.\<close>

definition combo_string_of :: "string list \<Rightarrow> char \<Rightarrow> string" where
  "combo_string_of mods c = py_join ''+'' (mods @ [[c]])"

subsection \<open>The registry and its listener\<close>

text \<open>
  \<open>self.hotkeys\<close> maps a name to \<open>{'combo': ..., 'callback': ...}\<close>. The callbacks are
  opaque values of a type \<open>'cb\<close>. The closure built by \<open>make_callback\<close> captures the
  callback and the name: running it calls \<open>cb()\<close> and then emits
  \<open>hotkey_triggered(hk_name)\<close>.
\<close>

record 'cb hotkey_info =
  combo :: string
  callback :: "'cb"

record 'cb wrapper =
  cb :: "'cb"
  hk_name :: string

text \<open>A \<open>pynput\<close> listener object: the dictionary it was built from, and whether its
  thread runs.\<close>

record 'cb GlobalHotKeys =
  hotkey_map :: "(string \<times> 'cb wrapper) list"
  running :: bool

text \<open>
  The library is outside the repository. Building and starting a listener either works,
  or the constructor raises (it parses every combo string), or \<open>start()\<close> raises; which
  of the three is a parameter \<open>lib\<close> of the model. The calls made on the library are
  recorded in order in the field \<open>calls\<close>.
\<close>

datatype lib_outcome = Started | CtorRaises | StartRaises

datatype 'cb lib_call =
    Stop
  | Create "(string \<times> 'cb wrapper) list"
  | Start

record 'cb HotkeyManager =
  hotkeys :: "(string \<times> 'cb hotkey_info) list"
  listener :: "'cb GlobalHotKeys option"
  calls :: "'cb lib_call list"

text \<open>\<open>HotkeyManager.__init__\<close>.\<close>

definition HotkeyManager_init :: "'cb HotkeyManager" where
  "HotkeyManager_init = \<lparr>hotkeys = [], listener = None, calls = []\<rparr>"

text \<open>The loop of \<open>_restart_listener\<close> that fills \<open>hotkey_map\<close>:
  \<open>hotkey_map[combo] = make_callback()\<close> for each binding in the order of the dictionary.\<close>

definition build_hotkey_map ::
  "(string \<times> 'cb hotkey_info) list \<Rightarrow> (string \<times> 'cb wrapper) list" where
  "build_hotkey_map hs =
     foldl (\<lambda>m (nm, info). AList.update (combo info) \<lparr>cb = callback info, hk_name = nm\<rparr> m)
       [] hs"

text \<open>\<open>_restart_listener\<close>. A \<open>stop()\<close> that raises is swallowed by the bare
  \<open>except\<close>; an exception of the constructor or of \<open>start()\<close> is logged and swallowed.\<close>

definition restart_listener ::
  "((string \<times> 'cb wrapper) list \<Rightarrow> lib_outcome) \<Rightarrow> 'cb HotkeyManager \<Rightarrow> 'cb HotkeyManager" where
  "restart_listener lib m =
     (let m1 = (case listener m of
                  None \<Rightarrow> m
                | Some l \<Rightarrow> m\<lparr>listener := Some (l\<lparr>running := False\<rparr>),
                              calls := calls m @ [Stop]\<rparr>)
      in if hotkeys m1 = [] then m1
         else
           (let hm = build_hotkey_map (hotkeys m1) in
            case lib hm of
              CtorRaises \<Rightarrow> m1\<lparr>calls := calls m1 @ [Create hm]\<rparr>
            | StartRaises \<Rightarrow>
                m1\<lparr>listener := Some \<lparr>hotkey_map = hm, running = False\<rparr>,
                   calls := calls m1 @ [Create hm, Start]\<rparr>
            | Started \<Rightarrow>
                m1\<lparr>listener := Some \<lparr>hotkey_map = hm, running = True\<rparr>,
                   calls := calls m1 @ [Create hm, Start]\<rparr>))"

text \<open>\<open>register_hotkey\<close>: the two statements of its \<open>try\<close> block cannot raise for a
  string name, so it returns \<open>True\<close>. The result is the new state and the returned flag.\<close>

definition register_hotkey ::
  "((string \<times> 'cb wrapper) list \<Rightarrow> lib_outcome) \<Rightarrow> string \<Rightarrow> string \<Rightarrow> 'cb
     \<Rightarrow> 'cb HotkeyManager \<Rightarrow> 'cb HotkeyManager \<times> bool" where
  "register_hotkey lib nm key_combo callback_fn m =
     (restart_listener lib
        (m\<lparr>hotkeys := AList.update nm \<lparr>combo = key_combo, callback = callback_fn\<rparr> (hotkeys m)\<rparr>),
      True)"

definition unregister_hotkey ::
  "((string \<times> 'cb wrapper) list \<Rightarrow> lib_outcome) \<Rightarrow> string
     \<Rightarrow> 'cb HotkeyManager \<Rightarrow> 'cb HotkeyManager \<times> bool" where
  "unregister_hotkey lib nm m =
     (if map_of (hotkeys m) nm \<noteq> None
      then (restart_listener lib (m\<lparr>hotkeys := AList.delete nm (hotkeys m)\<rparr>), True)
      else (m, False))"

text \<open>\<open>get_hotkeys\<close>.\<close>

definition get_hotkeys :: "'cb HotkeyManager \<Rightarrow> (string \<times> string) list" where
  "get_hotkeys m = map (\<lambda>(nm, info). (nm, combo info)) (hotkeys m)"

text \<open>What a key press of a combo does: the running listener looks the combo up in its
  dictionary and runs the wrapper found, which calls the callback and then emits the
  signal with the name.\<close>

datatype 'cb event = Called "'cb" | Emitted string

definition on_press :: "'cb HotkeyManager \<Rightarrow> string \<Rightarrow> 'cb event list" where
  "on_press m key_combo =
     (case listener m of
        None \<Rightarrow> []
      | Some l \<Rightarrow>
          if running l then
            (case map_of (hotkey_map l) key_combo of
               None \<Rightarrow> []
             | Some w \<Rightarrow> [Called (cb w), Emitted (hk_name w)])
          else [])"

text \<open>The calls \<open>_restart_listener\<close> makes on the library, written from the
  specification's words: stop the listener there is, then build one from exactly the
  bindings of the mapping (none when the mapping is empty) and start it.\<close>

definition spec_restart_calls ::
  "((string \<times> 'cb wrapper) list \<Rightarrow> lib_outcome) \<Rightarrow> bool
     \<Rightarrow> (string \<times> 'cb hotkey_info) list \<Rightarrow> 'cb lib_call list" where
  "spec_restart_calls lib had_listener bindings =
     (if had_listener then [Stop] else []) @
     (if bindings = [] then []
      else if lib (build_hotkey_map bindings) = CtorRaises
           then [Create (build_hotkey_map bindings)]
      else [Create (build_hotkey_map bindings), Start])"

text \<open>The dictionary of the listener that runs, if one does.\<close>

definition active_map :: "'cb HotkeyManager \<Rightarrow> (string \<times> 'cb wrapper) list option" where
  "active_map m =
     (case listener m of
        None \<Rightarrow> None
      | Some l \<Rightarrow> if running l then Some (hotkey_map l) else None)"

text \<open>The closure \<open>make_callback\<close> builds for a binding, the last binding of the
  mapping (in its order) that has a given combo string, and what firing a binding is:
  its callback is called and then its name is emitted.\<close>

definition wrapper_of :: "string \<times> 'cb hotkey_info \<Rightarrow> 'cb wrapper" where
  "wrapper_of b = \<lparr>cb = callback (snd b), hk_name = fst b\<rparr>"

definition last_binding ::
  "string \<Rightarrow> (string \<times> 'cb hotkey_info) list \<Rightarrow> (string \<times> 'cb hotkey_info) option" where
  "last_binding key_combo hs = find (\<lambda>b. combo (snd b) = key_combo) (rev hs)"

definition fires :: "(string \<times> 'cb hotkey_info) \<Rightarrow> 'cb event list" where
  "fires b = [Called (callback (snd b)), Emitted (fst b)]"

text \<open>Example states, with numbers for callbacks: a manager with one binding and its
  listener running, a manager with two bindings of the same combo string, and a library
  that accepts every dictionary.\<close>

definition example_manager :: "nat HotkeyManager" where
  "example_manager =
     \<lparr>hotkeys = [(''preview_0x1'', \<lparr>combo = ''<ctrl>+1'', callback = 1\<rparr>)],
      listener = Some \<lparr>hotkey_map = [(''<ctrl>+1'', \<lparr>cb = 1, hk_name = ''preview_0x1''\<rparr>)],
                       running = True\<rparr>,
      calls = []\<rparr>"

definition shared_combo_manager :: "nat HotkeyManager" where
  "shared_combo_manager =
     \<lparr>hotkeys = [(''preview_0x1'', \<lparr>combo = ''<ctrl>+1'', callback = 1\<rparr>),
                 (''preview_0x2'', \<lparr>combo = ''<ctrl>+1'', callback = 2\<rparr>)],
      listener = None,
      calls = []\<rparr>"

definition lib_ok :: "(string \<times> nat wrapper) list \<Rightarrow> lib_outcome" where
  "lib_ok hm = Started"


section \<open>Preview panel (ui/preview\_frame.py)\<close>

text \<open>
  The state of a panel that its methods read and write. The fields \<open>window_id\<close>,
  \<open>window_title\<close> and \<open>refresh_rate\<close> carry the prefix \<open>pf_\<close> here, because the
  profile records below have fields of the same names. \<open>update_timer\<close> is the
  \<open>QTimer\<close>: \<open>None\<close> when it is not active, its interval in milliseconds when it is.
  The geometry of the widget is the toolkit's and is not part of the model.
\<close>

record PreviewFrame =
  pf_window_id :: string
  pf_window_title :: string
  is_dragging :: bool
  scale_factor :: real
  pf_refresh_rate :: int
  update_timer :: "int option"

datatype signal = Closed string | Activated string | GeometryChanged

datatype button = LeftButton | RightButton | OtherButton

text \<open>\<open>PreviewFrame.__init__\<close>.\<close>

definition PreviewFrame_init :: "string \<Rightarrow> string \<Rightarrow> PreviewFrame" where
  "PreviewFrame_init wid title =
     \<lparr>pf_window_id = wid, pf_window_title = title, is_dragging = False,
      scale_factor = 3 / 10, pf_refresh_rate = 30, update_timer = None\<rparr>"

definition set_scale :: "real \<Rightarrow> PreviewFrame \<Rightarrow> PreviewFrame" where
  "set_scale s f = f\<lparr>scale_factor := max (1 / 10) (min 1 s)\<rparr>"

text \<open>\<open>set_refresh_rate\<close>: the division is by the value just clamped.\<close>

definition set_refresh_rate :: "int \<Rightarrow> PreviewFrame \<Rightarrow> PreviewFrame" where
  "set_refresh_rate fps f =
     (let f1 = f\<lparr>pf_refresh_rate := max 1 (min 60 fps)\<rparr> in
      if update_timer f1 \<noteq> None
      then f1\<lparr>update_timer := Some (1000 div pf_refresh_rate f1)\<rparr>
      else f1)"

text \<open>\<open>start_preview\<close>: \<open>1000 // self.refresh_rate\<close> raises when the rate is 0.\<close>

definition start_preview :: "PreviewFrame \<Rightarrow> exn + PreviewFrame" where
  "start_preview f =
     (if pf_refresh_rate f = 0 then Inl ZeroDivisionError
      else Inr (f\<lparr>update_timer := Some (1000 div pf_refresh_rate f)\<rparr>))"

definition stop_preview :: "PreviewFrame \<Rightarrow> PreviewFrame" where
  "stop_preview f = f\<lparr>update_timer := None\<rparr>"

text \<open>\<open>closeEvent\<close>: stop the timer, then emit \<open>closed(window_id)\<close>.\<close>

definition closeEvent :: "PreviewFrame \<Rightarrow> PreviewFrame \<times> signal list" where
  "closeEvent f = (stop_preview f, [Closed (pf_window_id f)])"

text \<open>\<open>mousePressEvent\<close>; \<open>on_title\<close> says whether the press is inside the title label.
  A right click calls \<open>close()\<close>, which delivers the close event.\<close>

definition mousePressEvent :: "button \<Rightarrow> bool \<Rightarrow> PreviewFrame \<Rightarrow> PreviewFrame \<times> signal list" where
  "mousePressEvent b on_title f =
     (case b of
        LeftButton \<Rightarrow>
          if on_title then (f\<lparr>is_dragging := True\<rparr>, [])
          else (f, [Activated (pf_window_id f)])
      | RightButton \<Rightarrow> closeEvent f
      | OtherButton \<Rightarrow> (f, []))"

definition mouseReleaseEvent :: "button \<Rightarrow> PreviewFrame \<Rightarrow> PreviewFrame \<times> signal list" where
  "mouseReleaseEvent b f =
     (case b of
        LeftButton \<Rightarrow> (f\<lparr>is_dragging := False\<rparr>, [GeometryChanged])
      | RightButton \<Rightarrow> (f, [])
      | OtherButton \<Rightarrow> (f, []))"

text \<open>The operations of a panel, and a run of them from a state; a run stops at the
  first exception.\<close>

datatype panel_op =
    SetScale real
  | SetRefreshRate int
  | StartPreview
  | StopPreview
  | MousePress button bool
  | MouseRelease button
  | CloseEvent

definition panel_step :: "panel_op \<Rightarrow> PreviewFrame \<Rightarrow> exn + PreviewFrame" where
  "panel_step op f =
     (case op of
        SetScale s \<Rightarrow> Inr (set_scale s f)
      | SetRefreshRate fps \<Rightarrow> Inr (set_refresh_rate fps f)
      | StartPreview \<Rightarrow> start_preview f
      | StopPreview \<Rightarrow> Inr (stop_preview f)
      | MousePress b on_title \<Rightarrow> Inr (fst (mousePressEvent b on_title f))
      | MouseRelease b \<Rightarrow> Inr (fst (mouseReleaseEvent b f))
      | CloseEvent \<Rightarrow> Inr (fst (closeEvent f)))"

fun panel_run :: "panel_op list \<Rightarrow> PreviewFrame \<Rightarrow> exn + PreviewFrame" where
  "panel_run [] f = Inr f"
| "panel_run (op # ops) f = bind_exn (panel_step op f) (panel_run ops)"

text \<open>The bounds of the specification.\<close>

definition in_bounds :: "PreviewFrame \<Rightarrow> bool" where
  "in_bounds f =
     (1 / 10 \<le> scale_factor f \<and> scale_factor f \<le> 1 \<and>
      1 \<le> pf_refresh_rate f \<and> pf_refresh_rate f \<le> 60)"


section \<open>Application controller (ui/main\_window.py)\<close>

text \<open>
  The part of the controller's state the panel-closed handler touches: the hotkey
  manager, the dictionary \<open>preview_frames\<close> from window identifier to panel, and the
  items of the list widget \<open>previews_list\<close>, each with its text and the window
  identifier stored as its user data.
\<close>

record 'cb MainWindow =
  hotkey_manager :: "'cb HotkeyManager"
  preview_frames :: "(string \<times> PreviewFrame) list"
  previews_list :: "(string \<times> string) list"

text \<open>The loop at the end of \<open>_on_preview_closed\<close>: take the first item whose data is
  the window identifier, then \<open>break\<close>.\<close>

fun take_item :: "string \<Rightarrow> (string \<times> string) list \<Rightarrow> (string \<times> string) list" where
  "take_item wid [] = []"
| "take_item wid (it # its) = (if snd it = wid then its else it # take_item wid its)"

definition on_preview_closed ::
  "((string \<times> 'cb wrapper) list \<Rightarrow> lib_outcome) \<Rightarrow> string \<Rightarrow> 'cb MainWindow \<Rightarrow> 'cb MainWindow" where
  "on_preview_closed lib wid mw =
     (if map_of (preview_frames mw) wid \<noteq> None
      then mw\<lparr>hotkey_manager := fst (unregister_hotkey lib (''preview_'' @ wid) (hotkey_manager mw)),
              preview_frames := AList.delete wid (preview_frames mw),
              previews_list := take_item wid (previews_list mw)\<rparr>
      else mw)"

text \<open>An example state: one live panel, with its list item and its hotkey binding.\<close>

definition example_window :: "nat MainWindow" where
  "example_window =
     \<lparr>hotkey_manager = example_manager,
      preview_frames = [(''0x1'', PreviewFrame_init ''0x1'' ''EVE'')],
      previews_list = [(''EVE [0x1]'', ''0x1'')]\<rparr>"


section \<open>Window capture (core/window\_capture.py)\<close>

text \<open>
  The external tools and the imaging library are outside the repository; they are
  parameters of the model. \<open>run argv input\<close> is \<open>subprocess.run\<close> of a command with the
  bytes given on its standard input: it completes with a return code and its output, or
  raises. \<open>dec bytes\<close> is \<open>Image.open\<close> of the bytes: an image or an exception. The
  library reads only the header when it opens an image and decodes the pixels when they
  are first needed, so an image is its size in pixels and whether its pixel data can be
  decoded (\<open>loadable\<close>). \<open>resize\<close> is the library's \<open>Image.resize\<close>: it loads the
  pixels, which raises when they cannot be decoded, raises a \<open>ValueError\<close> for a size
  below one pixel, and otherwise gives an image of exactly the size asked for.
\<close>

record completed =
  returncode :: int
  stdout :: "nat list"

record image =
  img_width :: int
  img_height :: int
  loadable :: bool

type_synonym runner = "string list \<Rightarrow> nat list \<Rightarrow> exn + completed"
type_synonym decoder = "nat list \<Rightarrow> exn + image"

definition resize :: "image \<Rightarrow> int \<times> int \<Rightarrow> exn + image" where
  "resize img new_size =
     (if \<not> loadable img then Inl OSError
      else if fst new_size < 1 \<or> snd new_size < 1 then Inl ValueError
      else Inr \<lparr>img_width = fst new_size, img_height = snd new_size, loadable = True\<rparr>)"

subsection \<open>Float arithmetic\<close>

text \<open>
  A Python float is an IEEE double. \<open>double_round r\<close> is the double nearest to the real
  \<open>r\<close>: \<open>r\<close> is brought to the form \<open>m * 2 ^ e\<close> with \<open>m\<close> between \<open>2 ^ 52\<close> and
  \<open>2 ^ 53\<close>, and \<open>m\<close> is rounded to an integer, a tie going to the even one. The
  exponent is not bounded here: values too small for a normal double are far below 1,
  where the truncation below gives 0 either way, and a value beyond the largest double
  is the overflow of \<open>float_mul\<close>.
\<close>

definition round_half_even :: "real \<Rightarrow> int" where
  "round_half_even m =
     (let n = \<lfloor>m\<rfloor>; d = m - of_int n in
      if d < 1 / 2 then n
      else if 1 / 2 < d then n + 1
      else if even n then n else n + 1)"

fun scale_mantissa :: "nat \<Rightarrow> real \<Rightarrow> int \<Rightarrow> real \<times> int" where
  "scale_mantissa 0 m e = (m, e)"
| "scale_mantissa (Suc k) m e =
     (if m < 2 ^ 52 then scale_mantissa k (2 * m) (e - 1)
      else if 2 ^ 53 \<le> m then scale_mantissa k (m / 2) (e + 1)
      else (m, e))"

definition double_round :: "real \<Rightarrow> real" where
  "double_round r =
     (if r = 0 then 0
      else (case scale_mantissa 2200 \<bar>r\<bar> 0 of
              (m, e) \<Rightarrow> sgn r * of_int (round_half_even m) * 2 powi e))"

definition max_double :: real where
  "max_double = (2 ^ 53 - 1) * 2 ^ 971"

text \<open>The product \<open>a * b\<close> of two floats: the exact product rounded to a double;
  \<open>None\<close> is an infinity. The width and the height of an image are integers below
  \<open>2 ^ 53\<close>, which Python converts to floats exactly before it multiplies.\<close>

definition float_mul :: "real \<Rightarrow> real \<Rightarrow> real option" where
  "float_mul a b =
     (let r = double_round (a * b) in if max_double < \<bar>r\<bar> then None else Some r)"

text \<open>\<open>int(r)\<close> of a float: truncation toward zero, and an \<open>OverflowError\<close> for an
  infinity.\<close>

definition py_int :: "real \<Rightarrow> int" where
  "py_int r = (if 0 \<le> r then \<lfloor>r\<rfloor> else \<lceil>r\<rceil>)"

definition py_int_float :: "real option \<Rightarrow> exn + int" where
  "py_int_float v = (case v of None \<Rightarrow> Inl OverflowError | Some r \<Rightarrow> Inr (py_int r))"

text \<open>The double nearest to 0.3, the default scale of a preview.\<close>

definition double_0_3 :: real where
  "double_0_3 = 5404319552844595 / 18014398509481984"

subsection \<open>Capturing a window\<close>

text \<open>The clause \<open>except (subprocess.TimeoutExpired, FileNotFoundError, Exception)\<close>
  of both capture functions: the exceptions it catches.\<close>

definition capture_except :: "exn \<Rightarrow> bool" where
  "capture_except e = (e = TimeoutExpired \<or> e = FileNotFoundError \<or> True)"

text \<open>
  The \<open>try\<close> block of \<open>_capture_window_xwd\<close>: the commands it ran, each with the bytes
  on its standard input, and how it ended: \<open>Inl e\<close> for an exception, \<open>Inr r\<close> for
  \<open>return r\<close>, where leaving the block without a \<open>return\<close> is \<open>Inr None\<close>, the
  \<open>return None\<close> that follows the block.
\<close>

definition capture_window_xwd_try ::
  "runner \<Rightarrow> decoder \<Rightarrow> string \<Rightarrow> real
     \<Rightarrow> (string list \<times> nat list) list \<times> (exn + image option)" where
  "capture_window_xwd_try run dec wid sc =
     (let cmd1 = [''xwd'', ''-id'', wid, ''-silent''] in
      case run cmd1 [] of
        Inl e \<Rightarrow> ([(cmd1, [])], Inl e)
      | Inr xwd_result \<Rightarrow>
          if returncode xwd_result \<noteq> 0 then ([(cmd1, [])], Inr None)
          else
            (let cmd2 = [''convert'', ''xwd:-'', ''png:-''] in
             case run cmd2 (stdout xwd_result) of
               Inl e \<Rightarrow> ([(cmd1, []), (cmd2, stdout xwd_result)], Inl e)
             | Inr convert_result \<Rightarrow>
                 if returncode convert_result = 0 \<and> stdout convert_result \<noteq> []
                 then ([(cmd1, []), (cmd2, stdout xwd_result)],
                       bind_exn (dec (stdout convert_result)) (\<lambda>img.
                         if sc \<noteq> 1
                         then
                           bind_exn (py_int_float (float_mul (of_int (img_width img)) sc)) (\<lambda>w.
                           bind_exn (py_int_float (float_mul (of_int (img_height img)) sc)) (\<lambda>h.
                           bind_exn (resize img (w, h)) (\<lambda>img'. Inr (Some img'))))
                         else Inr (Some img)))
                 else ([(cmd1, []), (cmd2, stdout xwd_result)], Inr None)))"

definition capture_window_xwd ::
  "runner \<Rightarrow> decoder \<Rightarrow> string \<Rightarrow> real
     \<Rightarrow> (string list \<times> nat list) list \<times> (exn + image option)" where
  "capture_window_xwd run dec wid sc =
     (case capture_window_xwd_try run dec wid sc of
        (cmds, Inl e) \<Rightarrow> if capture_except e then (cmds, Inr None) else (cmds, Inl e)
      | (cmds, Inr r) \<Rightarrow> (cmds, Inr r))"

text \<open>The \<open>try\<close> block of \<open>capture_window\<close>; \<open>Inr None\<close> is leaving the block without
  a \<open>return\<close>.\<close>

definition capture_window_try ::
  "runner \<Rightarrow> decoder \<Rightarrow> string \<Rightarrow> real
     \<Rightarrow> (string list \<times> nat list) list \<times> (exn + image option)" where
  "capture_window_try run dec wid sc =
     (let cmd = [''import'', ''-window'', wid, ''-silent'', ''png:-''] in
      case run cmd [] of
        Inl e \<Rightarrow> ([(cmd, [])], Inl e)
      | Inr result \<Rightarrow>
          if returncode result = 0 \<and> stdout result \<noteq> []
          then ([(cmd, [])],
                bind_exn (dec (stdout result)) (\<lambda>img.
                  if sc \<noteq> 1
                  then
                    bind_exn (py_int_float (float_mul (of_int (img_width img)) sc)) (\<lambda>w.
                    bind_exn (py_int_float (float_mul (of_int (img_height img)) sc)) (\<lambda>h.
                    bind_exn (resize img (w, h)) (\<lambda>img'. Inr (Some img'))))
                  else Inr (Some img)))
          else ([(cmd, [])], Inr None))"

text \<open>\<open>capture_window\<close>: the image the \<open>try\<close> block returned, and otherwise (the block
  fell through, or its exception was caught and passed) the fallback.\<close>

definition capture_window ::
  "runner \<Rightarrow> decoder \<Rightarrow> string \<Rightarrow> real
     \<Rightarrow> (string list \<times> nat list) list \<times> (exn + image option)" where
  "capture_window run dec wid sc =
     (case capture_window_try run dec wid sc of
        (cmds, Inr (Some img)) \<Rightarrow> (cmds, Inr (Some img))
      | (cmds, Inr None) \<Rightarrow>
          (cmds @ fst (capture_window_xwd run dec wid sc), snd (capture_window_xwd run dec wid sc))
      | (cmds, Inl e) \<Rightarrow>
          if capture_except e
          then (cmds @ fst (capture_window_xwd run dec wid sc),
                snd (capture_window_xwd run dec wid sc))
          else (cmds, Inl e))"

subsection \<open>Command lines and example environments\<close>

text \<open>The command lines of the primary tool and of the two tools of the fallback.\<close>

definition import_command :: "string \<Rightarrow> string list" where
  "import_command wid = [''import'', ''-window'', wid, ''-silent'', ''png:-'']"

definition xwd_command :: "string \<Rightarrow> string list" where
  "xwd_command wid = [''xwd'', ''-id'', wid, ''-silent'']"

definition convert_command :: "string list" where
  "convert_command = [''convert'', ''xwd:-'', ''png:-'']"

text \<open>A decoder that accepts one byte string, as an image of a given size, and raises
  on every other.\<close>

definition png_bytes :: "nat list" where
  "png_bytes = [137, 80, 78, 71]"

definition dec_size :: "int \<Rightarrow> int \<Rightarrow> decoder" where
  "dec_size w h bytes =
     (if bytes = png_bytes then Inr \<lparr>img_width = w, img_height = h, loadable = True\<rparr>
      else Inl OtherException)"

text \<open>Environments: the primary tool delivers the image; no tool is installed; every
  tool runs and fails, as for a window identifier that does not exist; the primary tool
  is missing and the two tools of the fallback work, \<open>convert\<close> turning the dump that
  \<open>xwd\<close> wrote into the image.\<close>

definition run_primary :: runner where
  "run_primary argv input = Inr \<lparr>returncode = 0, stdout = png_bytes\<rparr>"

definition run_no_tools :: runner where
  "run_no_tools argv input = Inl FileNotFoundError"

definition run_no_window :: runner where
  "run_no_window argv input = Inr \<lparr>returncode = 1, stdout = []\<rparr>"

definition run_fallback_only :: runner where
  "run_fallback_only argv input =
     (if take 1 argv = [''import''] then Inl FileNotFoundError
      else if take 1 argv = [''xwd''] then Inr \<lparr>returncode = 0, stdout = [0, 0, 0, 100]\<rparr>
      else if take 1 argv = [''convert''] \<and> input = [0, 0, 0, 100]
           then Inr \<lparr>returncode = 0, stdout = png_bytes\<rparr>
      else Inr \<lparr>returncode = 1, stdout = []\<rparr>)"

text \<open>The size the specification gives for a scaled capture: width and height times
  the scale, each rounded to the nearest integer. This definition follows the
  specification's words, not the source.\<close>

definition spec_scaled_size :: "image \<Rightarrow> real \<Rightarrow> int \<times> int" where
  "spec_scaled_size img sc =
     (round (of_int (img_width img) * sc), round (of_int (img_height img) * sc))"


section \<open>Configuration and profiles (core/config\_manager.py)\<close>

subsection \<open>Documents and the data classes\<close>

text \<open>
  The values a JSON document carries, as Python objects: what \<open>json.load\<close> returns and
  \<open>json.dump\<close> accepts. Writing such a value with \<open>json.dump\<close> and reading the text back
  with \<open>json.load\<close> gives the value again, so a file is modelled by the value stored in it.
\<close>

datatype pyval =
    PyNone
  | PyBool bool
  | PyInt int
  | PyFloat real
  | PyStr string
  | PyList "pyval list"
  | PyDict "(string \<times> pyval) list"

text \<open>
  The data classes. Python does not enforce the annotations of a data class, and
  \<open>from_dict\<close> stores whatever value the document carries, so a field holds a \<open>pyval\<close>.
  The objects of the data model of the specification are the typed ones:
  \<open>typed_WindowConfig\<close> and \<open>typed_Profile\<close> below.
\<close>

record WindowConfig =
  window_id :: pyval
  window_title :: pyval
  x :: pyval
  y :: pyval
  width :: pyval
  height :: pyval
  scale :: pyval
  hotkey :: pyval
  enabled :: pyval

record Profile =
  name :: pyval
  windows :: "WindowConfig list"
  refresh_rate :: pyval
  always_on_top :: pyval
  click_through :: pyval

definition is_str :: "pyval \<Rightarrow> bool" where
  "is_str v = (case v of PyStr s \<Rightarrow> True | _ \<Rightarrow> False)"

definition is_int :: "pyval \<Rightarrow> bool" where
  "is_int v = (case v of PyInt i \<Rightarrow> True | _ \<Rightarrow> False)"

definition is_float :: "pyval \<Rightarrow> bool" where
  "is_float v = (case v of PyFloat r \<Rightarrow> True | _ \<Rightarrow> False)"

definition is_bool :: "pyval \<Rightarrow> bool" where
  "is_bool v = (case v of PyBool b \<Rightarrow> True | _ \<Rightarrow> False)"

definition typed_WindowConfig :: "WindowConfig \<Rightarrow> bool" where
  "typed_WindowConfig w =
     (is_str (window_id w) \<and> is_str (window_title w) \<and> is_int (x w) \<and> is_int (y w) \<and>
      is_int (width w) \<and> is_int (height w) \<and> is_float (scale w) \<and> is_str (hotkey w) \<and>
      is_bool (enabled w))"

definition typed_Profile :: "Profile \<Rightarrow> bool" where
  "typed_Profile p =
     (is_str (name p) \<and> list_all typed_WindowConfig (windows p) \<and> is_int (refresh_rate p) \<and>
      is_bool (always_on_top p) \<and> is_bool (click_through p))"

text \<open>\<open>dataclasses.asdict(w)\<close>.\<close>

definition asdict :: "WindowConfig \<Rightarrow> pyval" where
  "asdict w =
     PyDict
       [(''window_id'', window_id w),
        (''window_title'', window_title w),
        (''x'', x w),
        (''y'', y w),
        (''width'', width w),
        (''height'', height w),
        (''scale'', scale w),
        (''hotkey'', hotkey w),
        (''enabled'', enabled w)]"

definition to_dict :: "Profile \<Rightarrow> pyval" where
  "to_dict p =
     PyDict
       [(''name'', name p),
        (''windows'', PyList (map asdict (windows p))),
        (''refresh_rate'', refresh_rate p),
        (''always_on_top'', always_on_top p),
        (''click_through'', click_through p)]"

text \<open>\<open>d.get(k, default)\<close>.\<close>

definition py_get :: "(string \<times> pyval) list \<Rightarrow> string \<Rightarrow> pyval \<Rightarrow> pyval" where
  "py_get d k dflt = (case map_of d k of None \<Rightarrow> dflt | Some v \<Rightarrow> v)"

definition WindowConfig_fields :: "string list" where
  "WindowConfig_fields =
     [''window_id'', ''window_title'', ''x'', ''y'', ''width'', ''height'',
      ''scale'', ''hotkey'', ''enabled'']"

definition WindowConfig_required :: "string list" where
  "WindowConfig_required =
     [''window_id'', ''window_title'', ''x'', ''y'', ''width'', ''height'']"

text \<open>
  \<open>WindowConfig(**w)\<close>: a \<open>TypeError\<close> when \<open>w\<close> is not a mapping, when it has a key
  that is not a field, and when a field without a default is missing; otherwise the
  object, with the defaults of the class for \<open>scale\<close>, \<open>hotkey\<close> and \<open>enabled\<close>.
\<close>

definition WindowConfig_kwargs :: "pyval \<Rightarrow> exn + WindowConfig" where
  "WindowConfig_kwargs w =
     (case w of
        PyDict kw \<Rightarrow>
          if \<not> list_all (\<lambda>k. k \<in> set WindowConfig_fields) (map fst kw) then Inl TypeError
          else if \<not> list_all (\<lambda>k. map_of kw k \<noteq> None) WindowConfig_required then Inl TypeError
          else Inr
            \<lparr>window_id = py_get kw ''window_id'' PyNone,
             window_title = py_get kw ''window_title'' PyNone,
             x = py_get kw ''x'' PyNone,
             y = py_get kw ''y'' PyNone,
             width = py_get kw ''width'' PyNone,
             height = py_get kw ''height'' PyNone,
             scale = py_get kw ''scale'' (PyFloat (3 / 10)),
             hotkey = py_get kw ''hotkey'' (PyStr []),
             enabled = py_get kw ''enabled'' (PyBool True)\<rparr>
      | _ \<Rightarrow> Inl TypeError)"

text \<open>\<open>for w in v\<close>: the elements of a list, the characters of a string, the keys of a
  dictionary; a \<open>TypeError\<close> for a value that is not iterable.\<close>

definition py_iter :: "pyval \<Rightarrow> exn + pyval list" where
  "py_iter v =
     (case v of
        PyList vs \<Rightarrow> Inr vs
      | PyStr s \<Rightarrow> Inr (map (\<lambda>c. PyStr [c]) s)
      | PyDict d \<Rightarrow> Inr (map (\<lambda>kv. PyStr (fst kv)) d)
      | _ \<Rightarrow> Inl TypeError)"

text \<open>A list comprehension whose element expression can raise.\<close>

fun map_exn :: "('a \<Rightarrow> exn + 'b) \<Rightarrow> 'a list \<Rightarrow> exn + 'b list" where
  "map_exn f [] = Inr []"
| "map_exn f (v # vs) = bind_exn (f v) (\<lambda>r. bind_exn (map_exn f vs) (\<lambda>rs. Inr (r # rs)))"

text \<open>\<open>Profile.from_dict\<close>; \<open>data.get\<close> raises \<open>AttributeError\<close> when the document is
  not a dictionary.\<close>

definition from_dict :: "pyval \<Rightarrow> exn + Profile" where
  "from_dict data =
     (case data of
        PyDict d \<Rightarrow>
          bind_exn (py_iter (py_get d ''windows'' (PyList []))) (\<lambda>ws.
          bind_exn (map_exn WindowConfig_kwargs ws) (\<lambda>wcs.
            Inr \<lparr>name = py_get d ''name'' (PyStr ''Default''),
                 windows = wcs,
                 refresh_rate = py_get d ''refresh_rate'' (PyInt 30),
                 always_on_top = py_get d ''always_on_top'' (PyBool True),
                 click_through = py_get d ''click_through'' (PyBool False)\<rparr>))
      | _ \<Rightarrow> Inl AttributeError)"

subsection \<open>The profiles directory\<close>

text \<open>
  The directory \<open>profiles_dir\<close>: its entries by file name, in the order the operating
  system lists them. An entry is a regular file or a directory; the content of a file is
  the document in it, or \<open>None\<close> when its text is not JSON. A file name has no \<open>/\<close> and
  no NUL character: the model does not descend into subdirectories, and a path that is
  not a file name is absent and cannot be created. Opening a directory as a file and
  unlinking a directory raise; these are the input and output errors of the model.
\<close>

datatype node = File "pyval option" | Directory

type_synonym profiles_dir = "(string \<times> node) list"

definition valid_filename :: "string \<Rightarrow> bool" where
  "valid_filename fname = (CHR ''/'' \<notin> set fname \<and> CHR 0x00 \<notin> set fname)"

text \<open>\<open>Path.exists()\<close>.\<close>

definition path_exists :: "profiles_dir \<Rightarrow> string \<Rightarrow> bool" where
  "path_exists fs fname = (valid_filename fname \<and> map_of fs fname \<noteq> None)"

text \<open>\<open>open(path, 'r')\<close> followed by \<open>json.load\<close>.\<close>

definition read_json :: "profiles_dir \<Rightarrow> string \<Rightarrow> exn + pyval" where
  "read_json fs fname =
     (if \<not> valid_filename fname then Inl FileNotFoundError
      else case map_of fs fname of
             None \<Rightarrow> Inl FileNotFoundError
           | Some Directory \<Rightarrow> Inl IsADirectoryError
           | Some (File None) \<Rightarrow> Inl JSONDecodeError
           | Some (File (Some v)) \<Rightarrow> Inr v)"

text \<open>\<open>open(path, 'w')\<close> followed by \<open>json.dump\<close> of a document.\<close>

definition write_json :: "profiles_dir \<Rightarrow> string \<Rightarrow> pyval \<Rightarrow> exn + profiles_dir" where
  "write_json fs fname v =
     (if \<not> valid_filename fname then Inl OSError
      else case map_of fs fname of
             Some Directory \<Rightarrow> Inl IsADirectoryError
           | _ \<Rightarrow> Inr (AList.update fname (File (Some v)) fs))"

text \<open>\<open>Path.unlink()\<close>.\<close>

definition unlink :: "profiles_dir \<Rightarrow> string \<Rightarrow> exn + profiles_dir" where
  "unlink fs fname =
     (if \<not> valid_filename fname then Inl FileNotFoundError
      else case map_of fs fname of
             None \<Rightarrow> Inl FileNotFoundError
           | Some Directory \<Rightarrow> Inl IsADirectoryError
           | Some (File c) \<Rightarrow> Inr (AList.delete fname fs))"



subsection \<open>The operations of ConfigManager\<close>

text \<open>\<open>get_profile_path\<close>, relative to \<open>profiles_dir\<close>.\<close>

definition get_profile_path :: "string \<Rightarrow> string" where
  "get_profile_path profile_name = profile_name @ ''.json''"

text \<open>
  The f-string of \<open>get_profile_path\<close> formats its argument with \<open>str()\<close>. For a string
  that is the string itself; \<open>str()\<close> of the other values is a parameter \<open>py_str\<close> of
  \<open>save_profile\<close>, consulted only for a profile whose name is not a string.
\<close>

definition py_format :: "(pyval \<Rightarrow> string) \<Rightarrow> pyval \<Rightarrow> string" where
  "py_format py_str v = (case v of PyStr s \<Rightarrow> s | _ \<Rightarrow> py_str v)"

text \<open>\<open>load_profile\<close>: \<open>None\<close> when the file is absent, and when opening, decoding or
  \<open>from_dict\<close> raises.\<close>

definition load_profile :: "profiles_dir \<Rightarrow> string \<Rightarrow> Profile option" where
  "load_profile fs profile_name =
     (let profile_path = get_profile_path profile_name in
      if \<not> path_exists fs profile_path then None
      else case bind_exn (read_json fs profile_path) from_dict of
             Inl e \<Rightarrow> None
           | Inr p \<Rightarrow> Some p)"

text \<open>\<open>save_profile\<close>: the directory after the call and the flag returned.\<close>

definition save_profile ::
  "(pyval \<Rightarrow> string) \<Rightarrow> profiles_dir \<Rightarrow> Profile \<Rightarrow> profiles_dir \<times> bool" where
  "save_profile py_str fs profile =
     (let profile_path = get_profile_path (py_format py_str (name profile)) in
      case write_json fs profile_path (to_dict profile) of
        Inl e \<Rightarrow> (fs, False)
      | Inr fs' \<Rightarrow> (fs', True))"

definition delete_profile :: "profiles_dir \<Rightarrow> string \<Rightarrow> profiles_dir \<times> bool" where
  "delete_profile fs profile_name =
     (if profile_name = ''Default'' then (fs, False)
      else
        (let profile_path = get_profile_path profile_name in
         if path_exists fs profile_path
         then (case unlink fs profile_path of
                 Inl e \<Rightarrow> (fs, False)
               | Inr fs' \<Rightarrow> (fs', True))
         else (fs, False)))"


text \<open>The profile of the repository's component test, with the defaults of the data
  classes filled in, and a directory holding a profile file and a subdirectory.\<close>

definition test_profile :: Profile where
  "test_profile =
     \<lparr>name = PyStr ''Test'',
      windows =
        [\<lparr>window_id = PyStr ''0x123'', window_title = PyStr ''Test Window'',
          x = PyInt 100, y = PyInt 100, width = PyInt 400, height = PyInt 300,
          scale = PyFloat (3 / 10), hotkey = PyStr [], enabled = PyBool True\<rparr>],
      refresh_rate = PyInt 30,
      always_on_top = PyBool True,
      click_through = PyBool False\<rparr>"

definition test_dir :: profiles_dir where
  "test_dir =
     [(''Mining.json'', File (Some (PyDict [(''name'', PyStr ''Mining'')]))),
      (''notes.txt'', File None),
      (''Archive.json'', Directory)]"

text \<open>A regular file at a path, a directory at a path, and a name that gives a file
  name when \<open>.json\<close> is appended: a valid filename stem.\<close>

definition is_regular_file :: "profiles_dir \<Rightarrow> string \<Rightarrow> bool" where
  "is_regular_file fs fname =
     (valid_filename fname \<and>
      (case map_of fs fname of Some (File c) \<Rightarrow> True | _ \<Rightarrow> False))"

definition is_directory :: "profiles_dir \<Rightarrow> string \<Rightarrow> bool" where
  "is_directory fs fname = (map_of fs fname = Some Directory)"

definition valid_stem :: "string \<Rightarrow> bool" where
  "valid_stem n = valid_filename (get_profile_path n)"


section \<open>Theorems: the preview panel\<close>

lemma set_scale_bounds:
  "1 / 10 \<le> scale_factor (set_scale s f) \<and> scale_factor (set_scale s f) \<le> 1"
  by (simp add: set_scale_def)

lemma set_refresh_rate_bounds:
  "1 \<le> pf_refresh_rate (set_refresh_rate fps f) \<and> pf_refresh_rate (set_refresh_rate fps f) \<le> 60"
  by (simp add: set_refresh_rate_def Let_def)

lemma set_scale_keeps_rate: "pf_refresh_rate (set_scale s f) = pf_refresh_rate f"
  by (simp add: set_scale_def)

lemma set_refresh_rate_keeps_scale: "scale_factor (set_refresh_rate fps f) = scale_factor f"
  by (simp add: set_refresh_rate_def Let_def)

lemma panel_step_in_bounds:
  assumes "in_bounds f"
  shows "\<exists>f'. panel_step op f = Inr f' \<and> in_bounds f'"
proof (cases op)
  case (SetScale s)
  then show ?thesis
    using assms set_scale_bounds [of s f]
    by (simp add: panel_step_def in_bounds_def set_scale_keeps_rate)
next
  case (SetRefreshRate fps)
  then show ?thesis
    using assms set_refresh_rate_bounds [of fps f]
    by (simp add: panel_step_def in_bounds_def set_refresh_rate_keeps_scale)
next
  case StartPreview
  then show ?thesis
    using assms by (auto simp: panel_step_def in_bounds_def start_preview_def)
next
  case StopPreview
  then show ?thesis
    using assms by (simp add: panel_step_def in_bounds_def stop_preview_def)
next
  case (MousePress b on_title)
  then show ?thesis
    using assms
    by (cases b) (simp_all add: panel_step_def in_bounds_def mousePressEvent_def closeEvent_def stop_preview_def)
next
  case (MouseRelease b)
  then show ?thesis
    using assms
    by (cases b) (simp_all add: panel_step_def in_bounds_def mouseReleaseEvent_def)
next
  case CloseEvent
  then show ?thesis
    using assms by (simp add: panel_step_def in_bounds_def closeEvent_def stop_preview_def)
qed

lemma panel_run_in_bounds:
  "in_bounds f \<Longrightarrow> \<exists>f'. panel_run ops f = Inr f' \<and> in_bounds f'"
proof (induction ops arbitrary: f)
  case Nil
  then show ?case by simp
next
  case (Cons op ops)
  from panel_step_in_bounds [OF Cons.prems, of op]
  obtain f1 where s: "panel_step op f = Inr f1" and b: "in_bounds f1" by blast
  from Cons.IH [OF b] show ?case by (simp add: s bind_exn_def)
qed

lemma init_in_bounds: "in_bounds (PreviewFrame_init wid title)"
  by (simp add: in_bounds_def PreviewFrame_init_def)

text \<open>
  C8. The scale factor and the refresh rate of a panel are always within bounds: after
  \<open>set_scale s\<close>, for every real \<open>s\<close> and from every state, \<open>scale_factor\<close> lies in
  [0.1, 1.0]; after \<open>set_refresh_rate fps\<close>, for every integer \<open>fps\<close> and from every
  state, \<open>refresh_rate\<close> lies in [1, 60]; a new panel is within bounds; and every run of
  panel operations from a new panel ends, without an exception, in a state within bounds.
\<close>

theorem scale_and_rate_within_bounds:
  "(1 / 10 \<le> scale_factor (set_scale s f) \<and> scale_factor (set_scale s f) \<le> 1) \<and>
   (1 \<le> pf_refresh_rate (set_refresh_rate fps f) \<and> pf_refresh_rate (set_refresh_rate fps f) \<le> 60) \<and>
   in_bounds (PreviewFrame_init wid title) \<and>
   (\<exists>f'. panel_run ops (PreviewFrame_init wid title) = Inr f' \<and> in_bounds f')"
  using set_scale_bounds [of s f] set_refresh_rate_bounds [of fps f]
    init_in_bounds [of wid title] panel_run_in_bounds [OF init_in_bounds, of ops wid title]
  by simp

theorem scale_and_rate_within_bounds_witness:
  "scale_factor (set_scale 5 (PreviewFrame_init ''0x123'' ''Test Window'')) = 1 \<and>
   scale_factor (set_scale (- 2) (PreviewFrame_init ''0x123'' ''Test Window'')) = 1 / 10 \<and>
   pf_refresh_rate (set_refresh_rate 0 (PreviewFrame_init ''0x123'' ''Test Window'')) = 1 \<and>
   pf_refresh_rate (set_refresh_rate 100 (PreviewFrame_init ''0x123'' ''Test Window'')) = 60 \<and>
   in_bounds (PreviewFrame_init ''0x123'' ''Test Window'') \<and>
   (\<exists>f'. panel_run [SetRefreshRate 0, StartPreview, SetScale 7, CloseEvent]
            (PreviewFrame_init ''0x123'' ''Test Window'') = Inr f' \<and> in_bounds f')"
  using scale_and_rate_within_bounds
    [of 5 "PreviewFrame_init ''0x123'' ''Test Window''" 0 "''0x123''" "''Test Window''"
        "[SetRefreshRate 0, StartPreview, SetScale 7, CloseEvent]"]
  by (simp add: set_scale_def set_refresh_rate_def PreviewFrame_init_def)

section \<open>Theorems: the hotkey registry and the panel-closed handler\<close>

lemma restart_listener_hotkeys: "hotkeys (restart_listener lib m) = hotkeys m"
  by (simp add: restart_listener_def Let_def split: option.split lib_outcome.split)

lemma restart_listener_calls:
  "calls (restart_listener lib m) =
     calls m @ spec_restart_calls lib (listener m \<noteq> None) (hotkeys m)"
  by (cases "lib (build_hotkey_map (hotkeys m))"; cases "listener m")
     (simp_all add: restart_listener_def spec_restart_calls_def Let_def)

lemma restart_listener_active:
  "active_map (restart_listener lib m) =
     (if hotkeys m \<noteq> [] \<and> lib (build_hotkey_map (hotkeys m)) = Started
      then Some (build_hotkey_map (hotkeys m)) else None)"
  by (cases "lib (build_hotkey_map (hotkeys m))"; cases "listener m")
     (simp_all add: restart_listener_def active_map_def Let_def)

lemma delete_update_fresh:
  "map_of al k = None \<Longrightarrow> AList.delete k (AList.update k v al) = al"
  by (induction al) (auto split: if_splits)

lemma update_fresh_append:
  "map_of al k = None \<Longrightarrow> AList.update k v al = al @ [(k, v)]"
  by (induction al) (auto split: if_splits)

lemma register_hotkey_result:
  "snd (register_hotkey lib nm key_combo f m)"
  "hotkeys (fst (register_hotkey lib nm key_combo f m)) =
     AList.update nm \<lparr>combo = key_combo, callback = f\<rparr> (hotkeys m)"
  "calls (fst (register_hotkey lib nm key_combo f m)) =
     calls m @ spec_restart_calls lib (listener m \<noteq> None)
       (AList.update nm \<lparr>combo = key_combo, callback = f\<rparr> (hotkeys m))"
  "active_map (fst (register_hotkey lib nm key_combo f m)) =
     (if lib (build_hotkey_map (AList.update nm \<lparr>combo = key_combo, callback = f\<rparr> (hotkeys m)))
          = Started
      then Some (build_hotkey_map (AList.update nm \<lparr>combo = key_combo, callback = f\<rparr> (hotkeys m)))
      else None)"
  by (simp_all add: register_hotkey_def restart_listener_hotkeys restart_listener_calls
      restart_listener_active)

lemma unregister_hotkey_present:
  assumes "map_of (hotkeys m) nm \<noteq> None"
  shows "snd (unregister_hotkey lib nm m)"
    and "hotkeys (fst (unregister_hotkey lib nm m)) = AList.delete nm (hotkeys m)"
    and "calls (fst (unregister_hotkey lib nm m)) =
       calls m @ spec_restart_calls lib (listener m \<noteq> None) (AList.delete nm (hotkeys m))"
    and "active_map (fst (unregister_hotkey lib nm m)) =
       (if AList.delete nm (hotkeys m) \<noteq> [] \<and>
           lib (build_hotkey_map (AList.delete nm (hotkeys m))) = Started
        then Some (build_hotkey_map (AList.delete nm (hotkeys m))) else None)"
  using assms
  by (simp_all add: unregister_hotkey_def restart_listener_hotkeys restart_listener_calls
      restart_listener_active)

lemma unregister_hotkey_absent:
  "map_of (hotkeys m) nm = None \<Longrightarrow> unregister_hotkey lib nm m = (m, False)"
  by (simp add: unregister_hotkey_def)

text \<open>
  C7. For every state of the registry and every name \<open>nm\<close> that is not in the binding
  mapping, \<open>register_hotkey\<close> under \<open>nm\<close> followed by \<open>unregister_hotkey\<close> of \<open>nm\<close>
  leaves the binding mapping equal to the one before (so without \<open>nm\<close>), both calls
  return \<open>True\<close>, and each of the two restarts the listener: the calls it makes on the
  library are a stop of the listener there is, followed by the construction and start of
  a listener from exactly the bindings in the mapping at that moment (no construction
  when the mapping is empty), and the listener that runs afterwards, if the library
  started one, has the dictionary built from exactly those bindings.
\<close>

theorem register_then_unregister:
  assumes fresh: "map_of (hotkeys m) nm = None"
  shows "(let r1 = register_hotkey lib nm key_combo f m;
              r2 = unregister_hotkey lib nm (fst r1)
          in snd r1 \<and> snd r2 \<and>
             hotkeys (fst r1) = hotkeys m @ [(nm, \<lparr>combo = key_combo, callback = f\<rparr>)] \<and>
             hotkeys (fst r2) = hotkeys m \<and>
             calls (fst r1) =
               calls m @ spec_restart_calls lib (listener m \<noteq> None) (hotkeys (fst r1)) \<and>
             calls (fst r2) =
               calls (fst r1) @
                 spec_restart_calls lib (listener (fst r1) \<noteq> None) (hotkeys (fst r2)) \<and>
             active_map (fst r1) =
               (if lib (build_hotkey_map (hotkeys (fst r1))) = Started
                then Some (build_hotkey_map (hotkeys (fst r1))) else None) \<and>
             active_map (fst r2) =
               (if hotkeys (fst r2) \<noteq> [] \<and> lib (build_hotkey_map (hotkeys (fst r2))) = Started
                then Some (build_hotkey_map (hotkeys (fst r2))) else None))"
proof -
  define m1 where "m1 = fst (register_hotkey lib nm key_combo f m)"
  have h1: "hotkeys m1 = hotkeys m @ [(nm, \<lparr>combo = key_combo, callback = f\<rparr>)]"
    by (simp add: m1_def register_hotkey_result update_fresh_append [OF fresh])
  have present: "map_of (hotkeys m1) nm \<noteq> None"
    by (simp add: h1)
  have d: "AList.delete nm (hotkeys m1) = hotkeys m"
    using delete_update_fresh [OF fresh] by (simp add: m1_def register_hotkey_result)
  note u = unregister_hotkey_present [OF present, of lib, unfolded d]
  note r = register_hotkey_result [of lib nm key_combo f m, folded m1_def]
  have c1: "calls m1 = calls m @ spec_restart_calls lib (listener m \<noteq> None) (hotkeys m1)"
    using r(2) r(3) by simp
  have a1: "active_map m1 =
      (if lib (build_hotkey_map (hotkeys m1)) = Started
       then Some (build_hotkey_map (hotkeys m1)) else None)"
    using r(2) r(4) by simp
  show ?thesis
    unfolding Let_def m1_def [symmetric]
    using r(1) u(1) h1 u(2) c1 u(3) a1 u(4) by simp
qed

lemma foldl_update_lookup:
  "map_of (foldl (\<lambda>m (nm, info). AList.update (combo info) \<lparr>cb = callback info, hk_name = nm\<rparr> m)
             acc hs) c =
     (case last_binding c hs of
        None \<Rightarrow> map_of acc c
      | Some b \<Rightarrow> Some (wrapper_of b))"
proof (induction hs rule: rev_induct)
  case Nil
  then show ?case by (simp add: last_binding_def)
next
  case (snoc b hs)
  then show ?case
    by (cases b) (simp add: last_binding_def wrapper_of_def update_conv')
qed

lemma build_hotkey_map_lookup:
  "map_of (build_hotkey_map hs) c = map_option wrapper_of (last_binding c hs)"
  by (simp add: build_hotkey_map_def foldl_update_lookup split: option.split)

lemma foldl_update_distinct:
  "distinct (map fst acc) \<Longrightarrow>
   distinct (map fst
     (foldl (\<lambda>m (nm, info). AList.update (combo info) \<lparr>cb = callback info, hk_name = nm\<rparr> m)
        acc hs))"
  by (induction hs rule: rev_induct) (simp_all add: distinct_update split: prod.split)

lemma build_hotkey_map_distinct: "distinct (map fst (build_hotkey_map hs))"
  by (simp add: build_hotkey_map_def foldl_update_distinct)

lemma on_press_restart:
  assumes "lib (build_hotkey_map (hotkeys m)) = Started"
  shows "on_press (restart_listener lib m) c =
     (case last_binding c (hotkeys m) of None \<Rightarrow> [] | Some b \<Rightarrow> fires b)"
proof (cases "hotkeys m = []")
  case True
  then show ?thesis
    by (cases "listener m")
       (simp_all add: on_press_def restart_listener_def last_binding_def)
next
  case False
  then show ?thesis
    using assms
    by (cases "listener m")
       (simp_all add: on_press_def restart_listener_def Let_def build_hotkey_map_lookup
          fires_def wrapper_of_def split: option.split)
qed

lemma find_Some_member: "find P xs = Some v \<Longrightarrow> v \<in> set xs \<and> P v"
  by (induction xs) (auto split: if_splits)

lemma last_binding_Some:
  "last_binding c hs = Some b \<Longrightarrow> b \<in> set hs \<and> combo (snd b) = c"
  using find_Some_member [of "\<lambda>b. combo (snd b) = c" "rev hs" b]
  by (simp add: last_binding_def)

lemma last_binding_None:
  "last_binding c hs = None \<longleftrightarrow> (\<forall>b \<in> set hs. combo (snd b) \<noteq> c)"
  unfolding last_binding_def find_None_iff set_rev by blast

lemma last_binding_append:
  "last_binding c (xs @ ys) =
     (case last_binding c ys of None \<Rightarrow> last_binding c xs | Some b \<Rightarrow> Some b)"
  by (induction ys rule: rev_induct)
     (simp_all add: last_binding_def split: option.split)

lemma distinct_names_eq:
  "distinct (map fst hs) \<Longrightarrow> b \<in> set hs \<Longrightarrow> b' \<in> set hs \<Longrightarrow> fst b = fst b' \<Longrightarrow> b = b'"
  by (meson distinct_map inj_onD)

lemma all_delivered_iff:
  assumes dn: "distinct (map fst hs)"
  shows "(\<forall>b \<in> set hs. last_binding (combo (snd b)) hs = Some b) \<longleftrightarrow>
         distinct (map (\<lambda>b. combo (snd b)) hs)"
proof
  assume all: "\<forall>b \<in> set hs. last_binding (combo (snd b)) hs = Some b"
  have "inj_on (\<lambda>b. combo (snd b)) (set hs)"
  proof (rule inj_onI)
    fix b b' assume "b \<in> set hs" "b' \<in> set hs" "combo (snd b) = combo (snd b')"
    with all show "b = b'" by (metis option.inject)
  qed
  moreover have "distinct hs" using dn by (simp add: distinct_map)
  ultimately show "distinct (map (\<lambda>b. combo (snd b)) hs)"
    by (simp add: distinct_map)
next
  assume dc: "distinct (map (\<lambda>b. combo (snd b)) hs)"
  then have inj: "inj_on (\<lambda>b. combo (snd b)) (set hs)" by (simp add: distinct_map)
  show "\<forall>b \<in> set hs. last_binding (combo (snd b)) hs = Some b"
  proof
    fix b assume b: "b \<in> set hs"
    then have "last_binding (combo (snd b)) hs \<noteq> None"
      by (auto simp: last_binding_None)
    then obtain b' where l: "last_binding (combo (snd b)) hs = Some b'" by blast
    from last_binding_Some [OF l] b inj have "b' = b" by (auto dest: inj_onD)
    with l show "last_binding (combo (snd b)) hs = Some b" by simp
  qed
qed

lemma shadowed_never_last:
  assumes dn: "distinct (map fst (xs @ b1 # ys))"
    and b2: "b2 \<in> set ys" and same: "combo (snd b2) = combo (snd b1)"
  shows "last_binding c (xs @ b1 # ys) \<noteq> Some b1"
proof
  assume l: "last_binding c (xs @ b1 # ys) = Some b1"
  from last_binding_Some [OF l] have c: "c = combo (snd b1)" by simp
  from b2 same c have "last_binding c ys \<noteq> None" by (auto simp: last_binding_None)
  then obtain b' where l': "last_binding c ys = Some b'" by blast
  have "last_binding c (xs @ b1 # ys) = last_binding c (xs @ [b1] @ ys)" by simp
  also have "\<dots> = Some b'"
    by (simp only: last_binding_append [of c xs "[b1] @ ys"] last_binding_append [of c "[b1]" ys] l'
        option.case)
  finally have "b' = b1" using l by simp
  with last_binding_Some [OF l'] have "b1 \<in> set ys" by simp
  with dn show False by auto
qed

lemma fires_eq_iff: "fires b = fires b' \<longleftrightarrow> callback (snd b) = callback (snd b') \<and> fst b = fst b'"
  by (simp add: fires_def)

text \<open>
  C10. Distinct names do not give distinct triggers. After a restart that the library
  accepts, the listener's dictionary has one entry per combo string; a press of a combo
  fires the last binding of the mapping with that combo string and nothing else; a
  binding that is followed in the mapping by another binding with the same combo string
  never has its name emitted, whatever is pressed; and every binding is fired by its own
  combo exactly when the combo strings of the mapping are pairwise distinct. The names of
  the mapping are distinct, as the keys of a dictionary are.
\<close>

theorem same_combo_last_binding_wins:
  assumes dn: "distinct (map fst (hotkeys m))"
    and st: "lib (build_hotkey_map (hotkeys m)) = Started"
  shows "distinct (map fst (build_hotkey_map (hotkeys m))) \<and>
    active_map (restart_listener lib m) =
      (if hotkeys m = [] then None else Some (build_hotkey_map (hotkeys m))) \<and>
    (\<forall>c. on_press (restart_listener lib m) c =
           (case last_binding c (hotkeys m) of None \<Rightarrow> [] | Some b \<Rightarrow> fires b)) \<and>
    (\<forall>xs b1 ys b2 c.
       hotkeys m = xs @ b1 # ys \<and> b2 \<in> set ys \<and> combo (snd b2) = combo (snd b1)
       \<longrightarrow> Emitted (fst b1) \<notin> set (on_press (restart_listener lib m) c)) \<and>
    ((\<forall>b \<in> set (hotkeys m). on_press (restart_listener lib m) (combo (snd b)) = fires b)
       \<longleftrightarrow> distinct (map (\<lambda>b. combo (snd b)) (hotkeys m)))"
proof -
  let ?hs = "hotkeys m"
  have press: "on_press (restart_listener lib m) c =
      (case last_binding c ?hs of None \<Rightarrow> [] | Some b \<Rightarrow> fires b)" for c
    using st by (rule on_press_restart [of lib m c])
  have act: "active_map (restart_listener lib m) =
      (if ?hs = [] then None else Some (build_hotkey_map ?hs))"
    by (simp add: restart_listener_active st)
  have shadow: "Emitted (fst b1) \<notin> set (on_press (restart_listener lib m) c)"
    if eq: "?hs = xs @ b1 # ys" and b2: "b2 \<in> set ys"
      and same: "combo (snd b2) = combo (snd b1)" for xs b1 ys b2 c
  proof
    assume em: "Emitted (fst b1) \<in> set (on_press (restart_listener lib m) c)"
    then have "\<exists>b. last_binding c ?hs = Some b \<and> fst b = fst b1"
      by (cases "last_binding c ?hs") (simp_all add: press fires_def)
    then obtain b where l: "last_binding c ?hs = Some b" and n: "fst b = fst b1"
      by blast
    from last_binding_Some [OF l] have "b \<in> set ?hs" by simp
    moreover have "b1 \<in> set ?hs" by (simp add: eq)
    ultimately have "b = b1" using dn n by (blast intro: distinct_names_eq)
    with l have "last_binding c (xs @ b1 # ys) = Some b1" by (simp add: eq)
    moreover from dn have "distinct (map fst (xs @ b1 # ys))" by (simp add: eq)
    ultimately show False using shadowed_never_last [OF _ b2 same] by blast
  qed
  have one: "(on_press (restart_listener lib m) (combo (snd b)) = fires b)
      \<longleftrightarrow> last_binding (combo (snd b)) ?hs = Some b" if b: "b \<in> set ?hs" for b
  proof (cases "last_binding (combo (snd b)) ?hs")
    case None
    then show ?thesis by (simp add: press fires_def)
  next
    case (Some b')
    from last_binding_Some [OF Some] have "b' \<in> set ?hs" by simp
    with b dn have "fst b' = fst b \<longrightarrow> b' = b" by (auto dest: distinct_names_eq)
    then show ?thesis by (auto simp: press Some fires_eq_iff)
  qed
  have all: "(\<forall>b \<in> set ?hs. on_press (restart_listener lib m) (combo (snd b)) = fires b)
      \<longleftrightarrow> distinct (map (\<lambda>b. combo (snd b)) ?hs)"
    using one all_delivered_iff [OF dn] by simp
  show ?thesis
    using build_hotkey_map_distinct [of ?hs] act press shadow all by blast
qed

lemma take_item_remove1: "map snd (take_item wid its) = remove1 wid (map snd its)"
  by (induction its) auto

lemma on_preview_closed_absent:
  "map_of (preview_frames mw) wid = None \<Longrightarrow> on_preview_closed lib wid mw = mw"
  by (simp add: on_preview_closed_def)

lemma on_preview_closed_live:
  assumes "map_of (preview_frames mw) wid \<noteq> None"
  shows "hotkey_manager (on_preview_closed lib wid mw) =
           fst (unregister_hotkey lib (''preview_'' @ wid) (hotkey_manager mw))"
    and "preview_frames (on_preview_closed lib wid mw) = AList.delete wid (preview_frames mw)"
    and "previews_list (on_preview_closed lib wid mw) = take_item wid (previews_list mw)"
  using assms by (simp_all add: on_preview_closed_def)

lemma unregister_hotkey_hotkeys:
  "map_of (hotkeys (fst (unregister_hotkey lib nm m))) = (map_of (hotkeys m))(nm := None)"
  by (cases "map_of (hotkeys m) nm = None")
     (auto simp: unregister_hotkey_def restart_listener_hotkeys delete_conv')

text \<open>
  C9. The cleanup of a closed panel happens once. For a live panel with window identifier
  \<open>wid\<close>, the first call of the panel-closed handler removes the binding named
  \<open>preview_wid\<close> (the other bindings stay, and the hotkey manager is untouched when
  there is no such binding), removes \<open>wid\<close> from \<open>preview_frames\<close> (the other panels
  stay), and takes the first item for \<open>wid\<close> out of the previews list, after which the
  list has no item for \<open>wid\<close> when each window identifier had at most one item; a
  second call for the same \<open>wid\<close> changes nothing: not the bindings, the registry, the
  list or the listener.
\<close>

theorem panel_closed_cleanup_once:
  assumes live: "map_of (preview_frames mw) wid \<noteq> None"
  shows "(let mw1 = on_preview_closed lib wid mw in
      map_of (hotkeys (hotkey_manager mw1)) (''preview_'' @ wid) = None \<and>
      (\<forall>n. n \<noteq> ''preview_'' @ wid \<longrightarrow>
           map_of (hotkeys (hotkey_manager mw1)) n = map_of (hotkeys (hotkey_manager mw)) n) \<and>
      (map_of (hotkeys (hotkey_manager mw)) (''preview_'' @ wid) = None \<longrightarrow>
           hotkey_manager mw1 = hotkey_manager mw) \<and>
      map_of (preview_frames mw1) wid = None \<and>
      (\<forall>v. v \<noteq> wid \<longrightarrow> map_of (preview_frames mw1) v = map_of (preview_frames mw) v) \<and>
      map snd (previews_list mw1) = remove1 wid (map snd (previews_list mw)) \<and>
      (distinct (map snd (previews_list mw)) \<longrightarrow> wid \<notin> set (map snd (previews_list mw1))) \<and>
      on_preview_closed lib wid mw1 = mw1)"
proof -
  define mw1 where "mw1 = on_preview_closed lib wid mw"
  note r = on_preview_closed_live [OF live, of lib, folded mw1_def]
  have hk: "map_of (hotkeys (hotkey_manager mw1)) =
      (map_of (hotkeys (hotkey_manager mw)))(''preview_'' @ wid := None)"
    by (simp only: r(1) unregister_hotkey_hotkeys)
  have same: "hotkey_manager mw1 = hotkey_manager mw"
    if "map_of (hotkeys (hotkey_manager mw)) (''preview_'' @ wid) = None"
    using that by (simp add: r(1) unregister_hotkey_absent)
  have fr: "map_of (preview_frames mw1) = (map_of (preview_frames mw))(wid := None)"
    by (simp only: r(2) delete_conv')
  have li: "map snd (previews_list mw1) = remove1 wid (map snd (previews_list mw))"
    by (simp only: r(3) take_item_remove1)
  have gone: "wid \<notin> set (map snd (previews_list mw1))"
    if "distinct (map snd (previews_list mw))"
    using that by (simp only: li set_remove1_eq) simp
  have again: "on_preview_closed lib wid mw1 = mw1"
    by (rule on_preview_closed_absent) (simp add: fr)
  show ?thesis
    unfolding Let_def mw1_def [symmetric]
    using hk same fr li gone again by simp
qed

theorem register_then_unregister_witness:
  "map_of (hotkeys example_manager) ''preview_0x2'' = None \<and>
   (let r1 = register_hotkey lib_ok ''preview_0x2'' ''<ctrl>+2'' 2 example_manager;
        r2 = unregister_hotkey lib_ok ''preview_0x2'' (fst r1)
    in snd r1 \<and> snd r2 \<and>
       hotkeys (fst r2) = hotkeys example_manager \<and>
       calls (fst r2) =
         [Stop,
          Create [(''<ctrl>+1'', \<lparr>cb = 1, hk_name = ''preview_0x1''\<rparr>),
                  (''<ctrl>+2'', \<lparr>cb = 2, hk_name = ''preview_0x2''\<rparr>)],
          Start,
          Stop,
          Create [(''<ctrl>+1'', \<lparr>cb = 1, hk_name = ''preview_0x1''\<rparr>)],
          Start] \<and>
       active_map (fst r2) = Some [(''<ctrl>+1'', \<lparr>cb = 1, hk_name = ''preview_0x1''\<rparr>)])"
  using register_then_unregister [of example_manager "''preview_0x2''" lib_ok "''<ctrl>+2''" 2]
  by (simp add: example_manager_def lib_ok_def register_hotkey_def unregister_hotkey_def
      restart_listener_def build_hotkey_map_def active_map_def spec_restart_calls_def Let_def)

theorem same_combo_last_binding_wins_witness:
  "distinct (map fst (hotkeys shared_combo_manager)) \<and>
   lib_ok (build_hotkey_map (hotkeys shared_combo_manager)) = Started \<and>
   active_map (restart_listener lib_ok shared_combo_manager) =
     Some [(''<ctrl>+1'', \<lparr>cb = 2, hk_name = ''preview_0x2''\<rparr>)] \<and>
   on_press (restart_listener lib_ok shared_combo_manager) ''<ctrl>+1'' =
     [Called 2, Emitted ''preview_0x2''] \<and>
   Emitted ''preview_0x1'' \<notin> set (on_press (restart_listener lib_ok shared_combo_manager) ''<ctrl>+1'') \<and>
   \<not> distinct (map (\<lambda>b. combo (snd b)) (hotkeys shared_combo_manager))"
  using same_combo_last_binding_wins [of shared_combo_manager lib_ok]
  by (simp add: shared_combo_manager_def lib_ok_def restart_listener_def build_hotkey_map_def
      active_map_def on_press_def last_binding_def fires_def Let_def)

theorem panel_closed_cleanup_once_witness:
  "map_of (preview_frames example_window) ''0x1'' \<noteq> None \<and>
   (let mw1 = on_preview_closed lib_ok ''0x1'' example_window in
      hotkeys (hotkey_manager mw1) = [] \<and>
      calls (hotkey_manager mw1) = [Stop] \<and>
      preview_frames mw1 = [] \<and>
      previews_list mw1 = [] \<and>
      on_preview_closed lib_ok ''0x1'' mw1 = mw1)"
  using panel_closed_cleanup_once [of example_window "''0x1''" lib_ok]
  by (simp add: example_window_def example_manager_def lib_ok_def on_preview_closed_def
      unregister_hotkey_def restart_listener_def Let_def)

section \<open>Theorems: window capture\<close>

lemma capture_except_all: "capture_except e"
  by (simp add: capture_except_def)

lemma capture_window_xwd_snd:
  "snd (capture_window_xwd run dec wid sc) =
     (case snd (capture_window_xwd_try run dec wid sc) of Inl e \<Rightarrow> Inr None | Inr r \<Rightarrow> Inr r)"
  by (cases "capture_window_xwd_try run dec wid sc"; cases "snd (capture_window_xwd_try run dec wid sc)")
     (simp_all add: capture_window_xwd_def capture_except_all)

lemma capture_window_xwd_fst:
  "fst (capture_window_xwd run dec wid sc) = fst (capture_window_xwd_try run dec wid sc)"
  by (cases "capture_window_xwd_try run dec wid sc"; cases "snd (capture_window_xwd_try run dec wid sc)")
     (simp_all add: capture_window_xwd_def capture_except_all)

lemma capture_window_xwd_returns:
  "\<exists>r. snd (capture_window_xwd run dec wid sc) = Inr r"
  by (simp add: capture_window_xwd_snd split: sum.split)

lemma capture_window_cases:
  "capture_window run dec wid sc =
     (case snd (capture_window_try run dec wid sc) of
        Inr (Some img) \<Rightarrow> (fst (capture_window_try run dec wid sc), Inr (Some img))
      | _ \<Rightarrow> (fst (capture_window_try run dec wid sc) @ fst (capture_window_xwd run dec wid sc),
               snd (capture_window_xwd run dec wid sc)))"
  by (cases "capture_window_try run dec wid sc")
     (simp add: capture_window_def capture_except_all split: sum.split option.split)

lemma capture_window_try_fst:
  "fst (capture_window_try run dec wid sc) = [(import_command wid, [])]"
  by (simp add: capture_window_try_def import_command_def Let_def split: sum.split)

text \<open>The fallback, step by step.\<close>

lemma xwd_step_fails:
  assumes "run (xwd_command wid) [] = Inl e \<or>
     (\<exists>xr. run (xwd_command wid) [] = Inr xr \<and> returncode xr \<noteq> 0)"
  shows "capture_window_xwd run dec wid sc = ([(xwd_command wid, [])], Inr None)"
  using assms
  by (auto simp: capture_window_xwd_def capture_window_xwd_try_def xwd_command_def
      capture_except_all)

lemma convert_step_runs:
  assumes "run (xwd_command wid) [] = Inr xr" and "returncode xr = 0"
  shows "fst (capture_window_xwd run dec wid sc) =
           [(xwd_command wid, []), (convert_command, stdout xr)]"
  using assms
  by (simp add: capture_window_xwd_fst capture_window_xwd_try_def xwd_command_def
      convert_command_def Let_def split: sum.split)

lemma convert_step_fails:
  assumes "run (xwd_command wid) [] = Inr xr" and "returncode xr = 0"
    and "run convert_command (stdout xr) = Inl e \<or>
      (\<exists>cr. run convert_command (stdout xr) = Inr cr \<and>
         (returncode cr \<noteq> 0 \<or> stdout cr = [] \<or> dec (stdout cr) = Inl e))"
  shows "snd (capture_window_xwd run dec wid sc) = Inr None"
  using assms
  by (auto simp: capture_window_xwd_snd capture_window_xwd_try_def xwd_command_def
      convert_command_def Let_def bind_exn_def)

lemma fallback_delivers:
  assumes "run (xwd_command wid) [] = Inr xr" and "returncode xr = 0"
    and "run convert_command (stdout xr) = Inr cr" and "returncode cr = 0"
    and "stdout cr \<noteq> []" and "dec (stdout cr) = Inr img"
  shows "snd (capture_window_xwd run dec wid 1) = Inr (Some img)"
  using assms
  by (simp add: capture_window_xwd_snd capture_window_xwd_try_def xwd_command_def
      convert_command_def Let_def bind_exn_def)

lemma capture_window_try_failure:
  assumes "run (import_command wid) [] = Inl e \<or>
     (\<exists>r. run (import_command wid) [] = Inr r \<and> returncode r = 0 \<and> stdout r \<noteq> [] \<and>
        (dec (stdout r) = Inl e \<or>
         (\<exists>img. dec (stdout r) = Inr img \<and> sc \<noteq> 1 \<and> \<not> loadable img)))"
  shows "\<exists>e'. snd (capture_window_try run dec wid sc) = Inl e'"
  using assms
  by (auto simp: capture_window_try_def import_command_def bind_exn_def resize_def
      py_int_float_def split: option.split)

lemma xwd_try_runs_xwd:
  "(xwd_command wid, []) \<in> set (fst (capture_window_xwd run dec wid sc))"
  by (simp add: capture_window_xwd_fst capture_window_xwd_try_def xwd_command_def Let_def
      split: sum.split)

lemma fallback_delivers_scaled:
  assumes "run (xwd_command wid) [] = Inr xr" and "returncode xr = 0"
    and "run convert_command (stdout xr) = Inr cr" and "returncode cr = 0"
    and "stdout cr \<noteq> []" and "dec (stdout cr) = Inr img"
    and "sc \<noteq> 1" and "loadable img"
    and "float_mul (of_int (img_width img)) sc = Some p"
    and "float_mul (of_int (img_height img)) sc = Some q"
    and "1 \<le> py_int p" and "1 \<le> py_int q"
  shows "snd (capture_window_xwd run dec wid sc) =
           Inr (Some \<lparr>img_width = py_int p, img_height = py_int q, loadable = True\<rparr>)"
  using assms
  by (simp add: capture_window_xwd_snd capture_window_xwd_try_def xwd_command_def
      convert_command_def Let_def bind_exn_def py_int_float_def resize_def)

text \<open>
  C5. For every window identifier, every scale and every behaviour of the tools and of
  the decoder, \<open>capture_window\<close> returns an image or \<open>None\<close> and never raises. Whenever
  the primary tool delivers no image, and in particular when running it raises (tool
  missing, timeout), when decoding its output raises, and when the pixels of the decoded
  image cannot be loaded for scaling, the fallback is run after the primary command and
  the result is the fallback's. The fallback runs \<open>xwd\<close>; when that raises or fails it
  stops with \<open>None\<close>; otherwise it runs \<open>convert\<close> on the output of \<open>xwd\<close>, gives
  \<open>None\<close> when \<open>convert\<close> raises, fails, writes nothing or writes what cannot be
  decoded, and otherwise delivers the decoded image, scaled when the scale is not 1.0.
  When neither the primary tool nor the fallback delivers an image, the result is
  \<open>None\<close>.
\<close>

theorem capture_window_never_raises:
  "(\<exists>r. snd (capture_window run dec wid sc) = Inr r) \<and>
   ((\<forall>img. snd (capture_window_try run dec wid sc) \<noteq> Inr (Some img)) \<longrightarrow>
      fst (capture_window run dec wid sc) =
        (import_command wid, []) # fst (capture_window_xwd run dec wid sc) \<and>
      (xwd_command wid, []) \<in> set (fst (capture_window run dec wid sc)) \<and>
      snd (capture_window run dec wid sc) = snd (capture_window_xwd run dec wid sc)) \<and>
   (\<forall>e. run (import_command wid) [] = Inl e \<or>
        (\<exists>r. run (import_command wid) [] = Inr r \<and> returncode r = 0 \<and> stdout r \<noteq> [] \<and>
           (dec (stdout r) = Inl e \<or>
            (\<exists>img. dec (stdout r) = Inr img \<and> sc \<noteq> 1 \<and> \<not> loadable img))) \<longrightarrow>
      (xwd_command wid, []) \<in> set (fst (capture_window run dec wid sc)) \<and>
      snd (capture_window run dec wid sc) = snd (capture_window_xwd run dec wid sc)) \<and>
   (\<forall>e. run (xwd_command wid) [] = Inl e \<or>
        (\<exists>xr. run (xwd_command wid) [] = Inr xr \<and> returncode xr \<noteq> 0) \<longrightarrow>
      capture_window_xwd run dec wid sc = ([(xwd_command wid, [])], Inr None)) \<and>
   (\<forall>xr. run (xwd_command wid) [] = Inr xr \<and> returncode xr = 0 \<longrightarrow>
      fst (capture_window_xwd run dec wid sc) =
        [(xwd_command wid, []), (convert_command, stdout xr)] \<and>
      (\<forall>e. run convert_command (stdout xr) = Inl e \<or>
           (\<exists>cr. run convert_command (stdout xr) = Inr cr \<and>
              (returncode cr \<noteq> 0 \<or> stdout cr = [] \<or> dec (stdout cr) = Inl e)) \<longrightarrow>
         snd (capture_window_xwd run dec wid sc) = Inr None) \<and>
      (\<forall>cr img. run convert_command (stdout xr) = Inr cr \<and> returncode cr = 0 \<and>
           stdout cr \<noteq> [] \<and> dec (stdout cr) = Inr img \<longrightarrow>
         (sc = 1 \<longrightarrow> snd (capture_window_xwd run dec wid sc) = Inr (Some img)) \<and>
         (\<forall>p q. sc \<noteq> 1 \<and> loadable img \<and>
              float_mul (of_int (img_width img)) sc = Some p \<and>
              float_mul (of_int (img_height img)) sc = Some q \<and>
              1 \<le> py_int p \<and> 1 \<le> py_int q \<longrightarrow>
            snd (capture_window_xwd run dec wid sc) =
              Inr (Some \<lparr>img_width = py_int p, img_height = py_int q, loadable = True\<rparr>)))) \<and>
   ((\<forall>img. snd (capture_window_try run dec wid sc) \<noteq> Inr (Some img)) \<and>
    (\<forall>img. snd (capture_window_xwd_try run dec wid sc) \<noteq> Inr (Some img)) \<longrightarrow>
      snd (capture_window run dec wid sc) = Inr None)"
proof -
  let ?cw = "capture_window run dec wid sc"
  let ?fb = "capture_window_xwd run dec wid sc"
  have a: "\<exists>r. snd ?cw = Inr r"
    using capture_window_xwd_returns [of run dec wid sc]
    by (auto simp: capture_window_cases split: sum.split option.split)
  have b: "fst ?cw = (import_command wid, []) # fst ?fb \<and>
      (xwd_command wid, []) \<in> set (fst ?cw) \<and> snd ?cw = snd ?fb"
    if "\<forall>img. snd (capture_window_try run dec wid sc) \<noteq> Inr (Some img)"
    using that xwd_try_runs_xwd [of wid run dec sc]
    by (auto simp: capture_window_cases capture_window_try_fst split: sum.split option.split)
  have c: "(xwd_command wid, []) \<in> set (fst ?cw) \<and> snd ?cw = snd ?fb"
    if "run (import_command wid) [] = Inl e \<or>
        (\<exists>r. run (import_command wid) [] = Inr r \<and> returncode r = 0 \<and> stdout r \<noteq> [] \<and>
           (dec (stdout r) = Inl e \<or>
            (\<exists>img. dec (stdout r) = Inr img \<and> sc \<noteq> 1 \<and> \<not> loadable img)))" for e
  proof -
    from capture_window_try_failure [where run = run and dec = dec and wid = wid and e = e
        and sc = sc, OF that]
    have "\<forall>img. snd (capture_window_try run dec wid sc) \<noteq> Inr (Some img)" by auto
    with b show ?thesis by blast
  qed
  have d: "?fb = ([(xwd_command wid, [])], Inr None)"
    if "run (xwd_command wid) [] = Inl e \<or>
        (\<exists>xr. run (xwd_command wid) [] = Inr xr \<and> returncode xr \<noteq> 0)" for e
    using that by (rule xwd_step_fails)
  have e1: "fst ?fb = [(xwd_command wid, []), (convert_command, stdout xr)]"
    if "run (xwd_command wid) [] = Inr xr" "returncode xr = 0" for xr
    using that by (rule convert_step_runs)
  have e2: "snd ?fb = Inr None"
    if "run (xwd_command wid) [] = Inr xr" "returncode xr = 0"
      "run convert_command (stdout xr) = Inl e \<or>
         (\<exists>cr. run convert_command (stdout xr) = Inr cr \<and>
            (returncode cr \<noteq> 0 \<or> stdout cr = [] \<or> dec (stdout cr) = Inl e))" for xr e
    using that by (rule convert_step_fails)
  have e3: "snd ?fb = Inr (Some img)"
    if "run (xwd_command wid) [] = Inr xr" "returncode xr = 0"
      "run convert_command (stdout xr) = Inr cr" "returncode cr = 0"
      "stdout cr \<noteq> []" "dec (stdout cr) = Inr img" "sc = 1" for xr cr img
    using fallback_delivers [where run = run and dec = dec and wid = wid and xr = xr and cr = cr
        and img = img] that by simp
  have e4: "snd ?fb = Inr (Some \<lparr>img_width = py_int p, img_height = py_int q, loadable = True\<rparr>)"
    if "run (xwd_command wid) [] = Inr xr" "returncode xr = 0"
      "run convert_command (stdout xr) = Inr cr" "returncode cr = 0"
      "stdout cr \<noteq> []" "dec (stdout cr) = Inr img" "sc \<noteq> 1" "loadable img"
      "float_mul (of_int (img_width img)) sc = Some p"
      "float_mul (of_int (img_height img)) sc = Some q"
      "1 \<le> py_int p" "1 \<le> py_int q" for xr cr img p q
    using that by (rule fallback_delivers_scaled)
  have f: "snd ?cw = Inr None"
    if "(\<forall>img. snd (capture_window_try run dec wid sc) \<noteq> Inr (Some img)) \<and>
        (\<forall>img. snd (capture_window_xwd_try run dec wid sc) \<noteq> Inr (Some img))"
  proof -
    from that b have "snd ?cw = snd ?fb" by blast
    moreover from that have "snd ?fb = Inr None"
      by (auto simp: capture_window_xwd_snd split: sum.split option.split)
    ultimately show ?thesis by simp
  qed
  show ?thesis
    apply (intro conjI allI impI)
    subgoal by (rule a)
    subgoal using b by blast
    subgoal using b by blast
    subgoal using b by blast
    subgoal using c by blast
    subgoal using c by blast
    subgoal using d by blast
    subgoal using e1 by blast
    subgoal using e2 by blast
    subgoal using e3 by blast
    subgoal using e4 by blast
    subgoal using f by blast
    done
qed

theorem capture_window_never_raises_witness:
  "capture_window run_fallback_only (dec_size 7 5) ''0x123'' 1 =
     ([(import_command ''0x123'', []), (xwd_command ''0x123'', []),
       (convert_command, [0, 0, 0, 100])],
      Inr (Some \<lparr>img_width = 7, img_height = 5, loadable = True\<rparr>)) \<and>
   capture_window run_no_tools (dec_size 7 5) ''0xdead'' 1 =
     ([(import_command ''0xdead'', []), (xwd_command ''0xdead'', [])], Inr None) \<and>
   capture_window run_no_window (dec_size 7 5) ''0xdead'' 1 =
     ([(import_command ''0xdead'', []), (xwd_command ''0xdead'', [])], Inr None)"
  using capture_window_never_raises [of run_fallback_only "dec_size 7 5" "''0x123''" 1]
  by (simp add: capture_window_def capture_window_try_def capture_window_xwd_def
      capture_window_xwd_try_def run_fallback_only_def run_no_tools_def run_no_window_def
      dec_size_def png_bytes_def capture_except_def bind_exn_def
      xwd_command_def import_command_def convert_command_def)

lemma scale_mantissa_numeral:
  "scale_mantissa (numeral k) m e =
     (if m < 2 ^ 52 then scale_mantissa (pred_numeral k) (2 * m) (e - 1)
      else if 2 ^ 53 \<le> m then scale_mantissa (pred_numeral k) (m / 2) (e + 1)
      else (m, e))"
  by (simp add: numeral_eq_Suc)

lemma float_mul_examples:
  "float_mul 1920 double_0_3 = Some 576"
  "float_mul 1080 double_0_3 = Some 324"
  "float_mul 7 (1 / 4) = Some (7 / 4)"
  "float_mul 5 (1 / 4) = Some (5 / 4)"
  by (simp_all add: float_mul_def double_round_def scale_mantissa_numeral round_half_even_def
      max_double_def double_0_3_def)

lemma scaled_result:
  assumes "bind_exn d (\<lambda>img.
             if sc \<noteq> 1
             then
               bind_exn (py_int_float (float_mul (of_int (img_width img)) sc)) (\<lambda>w.
               bind_exn (py_int_float (float_mul (of_int (img_height img)) sc)) (\<lambda>h.
               bind_exn (resize img (w, h)) (\<lambda>img'. Inr (Some img'))))
             else Inr (Some img)) = Inr (Some res)"
    and "sc \<noteq> 1"
  shows "\<exists>orig. d = Inr orig \<and>
           img_width res = py_int (double_round (of_int (img_width orig) * sc)) \<and>
           img_height res = py_int (double_round (of_int (img_height orig) * sc)) \<and>
           1 \<le> img_width res \<and> 1 \<le> img_height res"
  using assms
  by (cases d)
     (auto simp: bind_exn_def resize_def py_int_float_def float_mul_def Let_def
        split: if_splits option.splits)

lemma py_int_floor: "1 \<le> py_int r \<Longrightarrow> py_int r = \<lfloor>r\<rfloor>"
  by (auto simp: py_int_def split: if_splits)

text \<open>
  C2, as amended. For every successful capture with a scale other than 1.0, the returned
  image has the dimensions \<open>int(width * scale)\<close> by \<open>int(height * scale)\<close> of the image
  decoded from the output of the primary tool or of the fallback: the float products
  (the exact products rounded to the nearest double) truncated toward zero, which is
  their floor since both dimensions of a successful capture are at least 1. They are not
  rounded to the nearest integer.
\<close>

theorem capture_scales_by_truncation:
  assumes ok: "snd (capture_window run dec wid sc) = Inr (Some res)" and sc: "sc \<noteq> 1"
  shows "\<exists>bytes orig.
     ((\<exists>r. run (import_command wid) [] = Inr r \<and> bytes = stdout r) \<or>
      (\<exists>xr r. run (xwd_command wid) [] = Inr xr \<and>
              run convert_command (stdout xr) = Inr r \<and> bytes = stdout r)) \<and>
     dec bytes = Inr orig \<and>
     img_width res = py_int (double_round (of_int (img_width orig) * sc)) \<and>
     img_height res = py_int (double_round (of_int (img_height orig) * sc)) \<and>
     img_width res = \<lfloor>double_round (of_int (img_width orig) * sc)\<rfloor> \<and>
     img_height res = \<lfloor>double_round (of_int (img_height orig) * sc)\<rfloor>"
proof (cases "\<exists>img. snd (capture_window_try run dec wid sc) = Inr (Some img)")
  case True
  then have t: "snd (capture_window_try run dec wid sc) = Inr (Some res)"
    using ok by (auto simp: capture_window_cases)
  then obtain r where r: "run (import_command wid) [] = Inr r"
    and b: "bind_exn (dec (stdout r)) (\<lambda>img.
             if sc \<noteq> 1
             then
               bind_exn (py_int_float (float_mul (of_int (img_width img)) sc)) (\<lambda>w.
               bind_exn (py_int_float (float_mul (of_int (img_height img)) sc)) (\<lambda>h.
               bind_exn (resize img (w, h)) (\<lambda>img'. Inr (Some img'))))
             else Inr (Some img)) = Inr (Some res)"
    by (auto simp: capture_window_try_def import_command_def Let_def split: sum.splits if_splits)
  from scaled_result [OF b sc] obtain orig where
    "dec (stdout r) = Inr orig"
    "img_width res = py_int (double_round (of_int (img_width orig) * sc))"
    "img_height res = py_int (double_round (of_int (img_height orig) * sc))"
    "1 \<le> img_width res" "1 \<le> img_height res" by blast
  with r show ?thesis using py_int_floor by metis
next
  case False
  then have "snd (capture_window_xwd run dec wid sc) = Inr (Some res)"
    using ok by (auto simp: capture_window_cases split: sum.splits option.splits)
  then have t: "snd (capture_window_xwd_try run dec wid sc) = Inr (Some res)"
    by (auto simp: capture_window_xwd_snd split: sum.splits)
  then obtain xr r where xr: "run (xwd_command wid) [] = Inr xr"
    and r: "run convert_command (stdout xr) = Inr r"
    and b: "bind_exn (dec (stdout r)) (\<lambda>img.
             if sc \<noteq> 1
             then
               bind_exn (py_int_float (float_mul (of_int (img_width img)) sc)) (\<lambda>w.
               bind_exn (py_int_float (float_mul (of_int (img_height img)) sc)) (\<lambda>h.
               bind_exn (resize img (w, h)) (\<lambda>img'. Inr (Some img'))))
             else Inr (Some img)) = Inr (Some res)"
    by (auto simp: capture_window_xwd_try_def xwd_command_def convert_command_def Let_def
        split: sum.splits if_splits)
  from scaled_result [OF b sc] obtain orig where
    "dec (stdout r) = Inr orig"
    "img_width res = py_int (double_round (of_int (img_width orig) * sc))"
    "img_height res = py_int (double_round (of_int (img_height orig) * sc))"
    "1 \<le> img_width res" "1 \<le> img_height res" by blast
  with xr r show ?thesis using py_int_floor by metis
qed

lemma capture_examples:
  "snd (capture_window run_primary (dec_size 1920 1080) ''0x123'' double_0_3) =
     Inr (Some \<lparr>img_width = 576, img_height = 324, loadable = True\<rparr>)"
  "snd (capture_window run_primary (dec_size 7 5) ''0x123'' (1 / 4)) =
     Inr (Some \<lparr>img_width = 1, img_height = 1, loadable = True\<rparr>)"
  "snd (capture_window run_fallback_only (dec_size 1920 1080) ''0x123'' double_0_3) =
     Inr (Some \<lparr>img_width = 576, img_height = 324, loadable = True\<rparr>)"
  "double_0_3 \<noteq> 1"
  by (simp_all add: capture_window_def capture_window_try_def capture_window_xwd_def
      capture_window_xwd_try_def capture_except_def run_primary_def run_fallback_only_def
      dec_size_def png_bytes_def bind_exn_def resize_def py_int_def py_int_float_def
      float_mul_examples Let_def)
     (simp_all add: double_0_3_def)

theorem capture_scales_by_truncation_witness:
  "snd (capture_window run_primary (dec_size 1920 1080) ''0x123'' double_0_3) =
     Inr (Some \<lparr>img_width = 576, img_height = 324, loadable = True\<rparr>) \<and>
   double_0_3 \<noteq> 1 \<and>
   dec_size 1920 1080 png_bytes = Inr \<lparr>img_width = 1920, img_height = 1080, loadable = True\<rparr> \<and>
   py_int (double_round (of_int 1920 * double_0_3)) = 576 \<and>
   py_int (double_round (of_int 1080 * double_0_3)) = 324 \<and>
   \<lfloor>of_int 1920 * double_0_3\<rfloor> = 575"
proof -
  have d: "double_round (1920 * double_0_3) = 576" "double_round (1080 * double_0_3) = 324"
    using float_mul_examples(1,2) by (simp_all add: float_mul_def Let_def split: if_splits)
  from capture_scales_by_truncation [OF capture_examples(1) capture_examples(4)]
    capture_examples(1) capture_examples(4) d
  show ?thesis
    by (simp add: dec_size_def py_int_def) (simp add: double_0_3_def)
qed

text \<open>
  C2 as stated fails: a capture of a 7 by 5 image at scale 0.25 succeeds with an image of
  1 by 1, where rounding 1.75 and 1.25 to the nearest integer gives 2 by 1.
\<close>

theorem capture_rounds_counterexample:
  "(1 / 4 :: real) \<noteq> 1 \<and>
   run_primary (import_command ''0x123'') [] = Inr \<lparr>returncode = 0, stdout = png_bytes\<rparr> \<and>
   dec_size 7 5 png_bytes = Inr \<lparr>img_width = 7, img_height = 5, loadable = True\<rparr> \<and>
   snd (capture_window run_primary (dec_size 7 5) ''0x123'' (1 / 4)) =
     Inr (Some \<lparr>img_width = 1, img_height = 1, loadable = True\<rparr>) \<and>
   spec_scaled_size \<lparr>img_width = 7, img_height = 5, loadable = True\<rparr> (1 / 4) = (2, 1)"
  using capture_examples(2)
  by (simp add: run_primary_def dec_size_def png_bytes_def spec_scaled_size_def round_def)


section \<open>Theorems: configuration and profiles\<close>


lemma py_rfind_json: "py_rfind (CHR ''.'') ''.json'' = Some 0"
  by simp







lemma is_regular_file_exists: "is_regular_file fs fname \<Longrightarrow> path_exists fs fname"
  by (auto simp: is_regular_file_def path_exists_def split: option.splits node.splits)

text \<open>
  C3. \<open>delete_profile('Default')\<close> returns \<open>False\<close> and leaves the directory as it was,
  whatever it holds. For every other name whose profile file exists, the call returns
  \<open>True\<close>, the file no longer exists afterwards, and every other entry of the directory
  is as before.
\<close>

theorem delete_default_refused:
  "delete_profile fs ''Default'' = (fs, False) \<and>
   (\<forall>n. n \<noteq> ''Default'' \<and> is_regular_file fs (get_profile_path n) \<longrightarrow>
      snd (delete_profile fs n) \<and>
      \<not> path_exists (fst (delete_profile fs n)) (get_profile_path n) \<and>
      (\<forall>other. other \<noteq> get_profile_path n \<longrightarrow>
         map_of (fst (delete_profile fs n)) other = map_of fs other))"
proof -
  have d: "delete_profile fs ''Default'' = (fs, False)"
    by (simp add: delete_profile_def)
  have r: "delete_profile fs n = (AList.delete (get_profile_path n) fs, True)"
    if "n \<noteq> ''Default''" and f: "is_regular_file fs (get_profile_path n)" for n
    using that is_regular_file_exists [OF f]
    by (auto simp: delete_profile_def unlink_def is_regular_file_def Let_def
        split: option.splits node.splits)
  show ?thesis
    using d by (auto simp: r path_exists_def delete_conv')
qed

theorem delete_default_refused_witness:
  "delete_profile test_dir ''Default'' = (test_dir, False) \<and>
   ''Mining'' \<noteq> ''Default'' \<and> is_regular_file test_dir (get_profile_path ''Mining'') \<and>
   delete_profile test_dir ''Mining'' =
     ([(''notes.txt'', File None), (''Archive.json'', Directory)], True) \<and>
   delete_profile test_dir ''Archive'' = (test_dir, False)"
  using delete_default_refused [of test_dir]
  by (simp add: delete_profile_def test_dir_def get_profile_path_def is_regular_file_def
      path_exists_def valid_filename_def unlink_def)

lemma WindowConfig_kwargs_asdict: "WindowConfig_kwargs (asdict w) = Inr w"
  by (simp add: WindowConfig_kwargs_def asdict_def WindowConfig_fields_def
      WindowConfig_required_def py_get_def)

lemma map_exn_asdict: "map_exn WindowConfig_kwargs (map asdict ws) = Inr ws"
  by (induction ws) (simp_all add: WindowConfig_kwargs_asdict bind_exn_def)

lemma from_dict_to_dict: "from_dict (to_dict p) = Inr p"
  by (simp add: from_dict_def to_dict_def py_get_def py_iter_def bind_exn_def map_exn_asdict)

lemma save_profile_ok:
  assumes nm: "name p = PyStr n" and v: "valid_stem n"
    and nd: "\<not> is_directory fs (get_profile_path n)"
  shows "save_profile py_str fs p =
           (AList.update (get_profile_path n) (File (Some (to_dict p))) fs, True)"
  using assms
  by (auto simp: save_profile_def py_format_def write_json_def valid_stem_def is_directory_def
      Let_def split: option.splits node.splits)

lemma save_profile_True:
  assumes nm: "name p = PyStr n" and ok: "snd (save_profile py_str fs p)"
  shows "valid_stem n \<and> \<not> is_directory fs (get_profile_path n)"
  using assms
  by (auto simp: save_profile_def py_format_def write_json_def valid_stem_def is_directory_def
      Let_def split: option.splits node.splits if_splits)

lemma load_after_write:
  assumes v: "valid_stem n"
  shows "load_profile (AList.update (get_profile_path n) (File (Some (to_dict p))) fs) n = Some p"
  using v
  by (simp add: load_profile_def path_exists_def read_json_def valid_stem_def update_conv'
      bind_exn_def from_dict_to_dict)

text \<open>
  C1. Profile persistence round-trips. \<open>Profile.from_dict(p.to_dict())\<close> is \<open>p\<close>, for
  every profile: its name, its windows in order with all nine fields of each, its refresh
  rate and its two flags. For every profile whose name \<open>n\<close> is a valid filename stem
  (and no directory stands at the path of its file), \<open>save_profile\<close> returns \<open>True\<close> and
  \<open>load_profile(n)\<close> on the directory it leaves returns \<open>p\<close>; and whenever saving a
  profile named \<open>n\<close> returns \<open>True\<close>, loading \<open>n\<close> returns that profile.
\<close>

theorem profile_round_trip:
  "from_dict (to_dict p) = Inr p \<and>
   (\<forall>n. name p = PyStr n \<and> valid_stem n \<and> \<not> is_directory fs (get_profile_path n) \<longrightarrow>
      snd (save_profile py_str fs p) \<and>
      load_profile (fst (save_profile py_str fs p)) n = Some p) \<and>
   (\<forall>n. name p = PyStr n \<and> snd (save_profile py_str fs p) \<longrightarrow>
      load_profile (fst (save_profile py_str fs p)) n = Some p)"
proof -
  have a: "snd (save_profile py_str fs p) \<and>
      load_profile (fst (save_profile py_str fs p)) n = Some p"
    if "name p = PyStr n" "valid_stem n" "\<not> is_directory fs (get_profile_path n)" for n
    using that by (simp add: save_profile_ok load_after_write)
  have b: "load_profile (fst (save_profile py_str fs p)) n = Some p"
    if nm: "name p = PyStr n" and ok: "snd (save_profile py_str fs p)" for n
    using a [OF nm] save_profile_True [OF nm ok] by simp
  show ?thesis using from_dict_to_dict a b by blast
qed

theorem profile_round_trip_witness:
  "from_dict (to_dict test_profile) = Inr test_profile \<and>
   name test_profile = PyStr ''Test'' \<and> valid_stem ''Test'' \<and>
   \<not> is_directory test_dir (get_profile_path ''Test'') \<and>
   typed_Profile test_profile \<and>
   snd (save_profile (\<lambda>v. []) test_dir test_profile) \<and>
   map fst (fst (save_profile (\<lambda>v. []) test_dir test_profile)) =
     [''Mining.json'', ''notes.txt'', ''Archive.json'', ''Test.json''] \<and>
   load_profile (fst (save_profile (\<lambda>v. []) test_dir test_profile)) ''Test'' = Some test_profile"
proof -
  have h: "name test_profile = PyStr ''Test''" "valid_stem ''Test''"
    "\<not> is_directory test_dir (get_profile_path ''Test'')"
    by (simp_all add: test_profile_def valid_stem_def valid_filename_def get_profile_path_def
        is_directory_def test_dir_def)
  have t: "typed_Profile test_profile"
    by (simp add: typed_Profile_def typed_WindowConfig_def test_profile_def is_str_def is_int_def
        is_float_def is_bool_def)
  have k: "map fst (fst (save_profile (\<lambda>v. []) test_dir test_profile)) =
     [''Mining.json'', ''notes.txt'', ''Archive.json'', ''Test.json'']"
    by (simp only: save_profile_ok [OF h, of "\<lambda>v. []"]) (simp add: get_profile_path_def test_dir_def)
  from profile_round_trip [of test_profile test_dir "\<lambda>v. []"] h t k show ?thesis by blast
qed

section \<open>Theorems: key combination strings\<close>

lemma of_char_lower:
  "(of_char (lower_char c) :: nat) =
     (if 65 \<le> (of_char c :: nat) \<and> (of_char c :: nat) \<le> 90 then of_char c + 32 else of_char c)"
  by (simp add: lower_char_def)

lemma of_char_upper:
  "(of_char (upper_char c) :: nat) =
     (if 97 \<le> (of_char c :: nat) \<and> (of_char c :: nat) \<le> 122 then of_char c - 32 else of_char c)"
  by (auto simp: upper_char_def)

lemma char_eq_code: "c = d \<longleftrightarrow> (of_char c :: nat) = of_char d"
  by simp

lemma lower_char_plus: "lower_char c = CHR ''+'' \<longleftrightarrow> c = CHR ''+''"
  by (simp add: char_eq_code [of _ "CHR ''+''"] of_char_lower)

lemma lower_char_lt: "lower_char c = CHR ''<'' \<longleftrightarrow> c = CHR ''<''"
  by (simp add: char_eq_code [of _ "CHR ''<''"] of_char_lower)

lemma lower_char_gt: "lower_char c = CHR ''>'' \<longleftrightarrow> c = CHR ''>''"
  by (simp add: char_eq_code [of _ "CHR ''>''"] of_char_lower)

lemma upper_lower_char: "upper_char (lower_char c) = upper_char c"
  by (simp add: char_eq_code [of "upper_char (lower_char c)"] of_char_upper of_char_lower)

lemma lower_char_not_space:
  "is_printable c \<Longrightarrow> c \<noteq> CHR '' '' \<Longrightarrow> \<not> is_space (lower_char c)"
  by (auto simp: is_printable_def is_space_def of_char_lower char_eq_code [of c "CHR '' ''"])

lemma py_join_Cons: "qs \<noteq> [] \<Longrightarrow> py_join sep (p # qs) = p @ sep @ py_join sep qs"
  by (cases qs) simp_all

lemma py_split_sep_free: "sep \<notin> set p \<Longrightarrow> py_split sep p = [p]"
  by (induction p) auto

lemma py_split_append:
  "sep \<notin> set p \<Longrightarrow> py_split sep (p @ sep # rest) = p # py_split sep rest"
  by (induction p) auto

lemma py_split_join:
  "\<forall>t \<in> set ts. sep \<notin> set t \<Longrightarrow>
   py_split sep (py_join [sep] (ts @ [l])) = ts @ py_split sep l"
proof (induction ts)
  case Nil
  then show ?case by simp
next
  case (Cons t ts)
  then show ?case
    by (simp add: py_join_Cons py_split_append)
qed

lemma py_split_join_free:
  assumes "\<forall>t \<in> set ts. sep \<notin> set t" and "ts \<noteq> []"
  shows "py_split sep (py_join [sep] ts) = ts"
proof -
  from assms(2) obtain us l where ts: "ts = us @ [l]"
    by (metis append_butlast_last_id)
  with assms(1) show ?thesis
    by (simp add: py_split_join py_split_sep_free)
qed

lemma py_lower_join:
  "py_lower (py_join ''+'' ts) = py_join ''+'' (map py_lower ts)"
proof (induction ts)
  case Nil
  then show ?case by (simp add: py_lower_def)
next
  case (Cons t ts)
  have p: "py_lower (CHR ''+'' # u) = CHR ''+'' # py_lower u" for u
    by (simp add: py_lower_def lower_char_def)
  have a: "py_lower (u @ v) = py_lower u @ py_lower v" for u v by (simp add: py_lower_def)
  show ?case
  proof (cases "ts = []")
    case True
    then show ?thesis by simp
  next
    case False
    with Cons show ?thesis by (simp add: py_join_Cons a p)
  qed
qed

lemma py_join_last_two:
  "py_join sep (ts @ [a, b]) = py_join sep (ts @ [a @ sep @ b])"
  by (induction ts) (simp_all add: py_join_Cons)

lemma lower_char_plus': "CHR ''+'' = lower_char c \<longleftrightarrow> c = CHR ''+''"
  using lower_char_plus [of c] by auto

lemma plus_in_lower: "CHR ''+'' \<in> set (py_lower t) \<longleftrightarrow> CHR ''+'' \<in> set t"
  by (induction t) (auto simp: py_lower_def lower_char_plus')

lemma alias_cases:
  assumes "map_of key_map t \<noteq> None"
  shows "t = ''ctrl'' \<or> t = ''control'' \<or> t = ''alt'' \<or> t = ''shift'' \<or> t = ''super'' \<or>
         t = ''win'' \<or> t = ''cmd''"
  using assms by (simp add: key_map_def split: if_splits)

lemma parse_part_alias:
  "parse_part ''ctrl'' = ''<ctrl>''"
  "parse_part ''control'' = ''<ctrl>''"
  "parse_part ''alt'' = ''<alt>''"
  "parse_part ''shift'' = ''<shift>''"
  "parse_part ''super'' = ''<cmd>''"
  "parse_part ''win'' = ''<cmd>''"
  "parse_part ''cmd'' = ''<cmd>''"
  by code_simp+

lemma format_part_alias:
  "format_part ''<ctrl>'' = ''Ctrl''"
  "format_part ''<alt>'' = ''Alt''"
  "format_part ''<shift>'' = ''Shift''"
  "format_part ''<cmd>'' = ''Super''"
  by code_simp+

lemma alias_token:
  assumes "is_modifier_alias t"
  shows "CHR ''+'' \<notin> set t"
    and "CHR ''+'' \<notin> set (parse_part (py_lower t))"
    and "format_part (parse_part (py_lower t)) = spec_canonical_modifier t"
proof -
  from assms have k: "map_of key_map (py_lower t) \<noteq> None"
    by (simp add: is_modifier_alias_def)
  from alias_cases [OF k] have "CHR ''+'' \<notin> set (py_lower t)"
    by auto
  then show "CHR ''+'' \<notin> set t"
    by (simp only: plus_in_lower not_False_eq_True)
  from alias_cases [OF k] show "CHR ''+'' \<notin> set (parse_part (py_lower t))"
    by (elim disjE) (simp_all add: parse_part_alias)
  from alias_cases [OF k] show "format_part (parse_part (py_lower t)) = spec_canonical_modifier t"
    by (elim disjE)
       (simp_all add: parse_part_alias format_part_alias spec_canonical_modifier_def)
qed

lemma parse_part_char: "\<not> is_space d \<Longrightarrow> parse_part [d] = [d]"
  by (simp add: parse_part_def py_strip_def strip_while_def key_map_def)

lemma format_part_char:
  "d \<noteq> CHR ''<'' \<Longrightarrow> d \<noteq> CHR ''>'' \<Longrightarrow> format_part [d] = [upper_char d]"
  by (simp add: format_part_def py_strip_chars_def strip_while_def py_capitalize_def)

lemma parse_part_empty: "parse_part [] = ''<>''"
  by code_simp

lemma format_part_brackets: "format_part ''<>'' = []"
  by code_simp

lemma upper_char_plus: "upper_char (CHR ''+'') = CHR ''+''"
  by code_simp

lemma lowered_combo:
  "py_lower (combo_string_of mods c) = py_join ''+'' (map py_lower mods @ [[lower_char c]])"
  by (simp add: combo_string_of_def py_lower_join) (simp add: py_lower_def)

lemma split_lowered_combo:
  assumes al: "\<forall>t \<in> set mods. is_modifier_alias t"
  shows "py_split (CHR ''+'') (py_lower (combo_string_of mods c)) =
           map py_lower mods @ py_split (CHR ''+'') [lower_char c]"
proof -
  have "\<forall>t \<in> set (map py_lower mods). CHR ''+'' \<notin> set t"
    using al alias_token(1) by (auto simp: plus_in_lower)
  then show ?thesis
    by (simp only: lowered_combo py_split_join)
qed

text \<open>
  Where the round trip holds: for every combo string built only from modifier-alias
  tokens (\<open>ctrl\<close>, \<open>control\<close>, \<open>alt\<close>, \<open>shift\<close>, \<open>super\<close>, \<open>win\<close>, \<open>cmd\<close>, in any
  casing) joined by \<open>+\<close>, with a single printable ASCII character other than the space,
  \<open><\<close> and \<open>>\<close> as the last token, \<open>format_key_combo(parse_key_combo(combo))\<close> is the
  canonical capitalized form.
\<close>

theorem format_parse_canonical:
  assumes al: "\<forall>t \<in> set mods. is_modifier_alias t"
    and pr: "is_printable c"
    and sp: "c \<noteq> CHR '' ''" and lt: "c \<noteq> CHR ''<''" and gt: "c \<noteq> CHR ''>''"
  shows "format_key_combo (parse_key_combo (combo_string_of mods c)) = spec_canonical_form mods c"
proof -
  let ?K = "map (\<lambda>t. parse_part (py_lower t)) mods"
  let ?C = "map spec_canonical_modifier mods"
  have K_free: "\<forall>t \<in> set ?K. CHR ''+'' \<notin> set t"
    using al alias_token(2) by auto
  have KC: "map format_part ?K = ?C"
    using al alias_token(3) by simp
  show ?thesis
  proof (cases "c = CHR ''+''")
    case False
    let ?d = "lower_char c"
    from False have d: "?d \<noteq> CHR ''+''" by (simp add: lower_char_plus)
    have nsp: "\<not> is_space ?d" using pr sp by (rule lower_char_not_space)
    have parts: "py_split (CHR ''+'') (py_lower (combo_string_of mods c)) =
        map py_lower mods @ [[?d]]"
      using d by (simp add: split_lowered_combo [OF al])
    have parsed: "parse_key_combo (combo_string_of mods c) = py_join ''+'' (?K @ [[?d]])"
      by (simp add: parse_key_combo_def parts parse_part_char [OF nsp] comp_def)
    have "py_split (CHR ''+'') (py_join ''+'' (?K @ [[?d]])) = ?K @ [[?d]]"
      using d by (simp only: py_split_join [OF K_free]) simp
    then have "format_key_combo (parse_key_combo (combo_string_of mods c)) =
        py_join ''+'' (map format_part (?K @ [[?d]]))"
      by (simp only: format_key_combo_def parsed)
    also have "map format_part (?K @ [[?d]]) = ?C @ [[upper_char c]]"
      using lt gt
      by (simp add: KC [simplified] format_part_char lower_char_lt lower_char_gt upper_lower_char
          comp_def)
    finally show ?thesis by (simp add: spec_canonical_form_def)
  next
    case True
    have parts: "py_split (CHR ''+'') (py_lower (combo_string_of mods c)) =
        map py_lower mods @ [[], []]"
      by (simp add: split_lowered_combo [OF al] True lower_char_plus)
    have parsed: "parse_key_combo (combo_string_of mods c) =
        py_join ''+'' ((?K @ [''<>'']) @ [''<>''])"
      by (simp add: parse_key_combo_def parts parse_part_empty comp_def)
    have free: "\<forall>t \<in> set (?K @ [''<>'']). CHR ''+'' \<notin> set t"
      using K_free by simp
    have "py_split (CHR ''+'') (py_join ''+'' ((?K @ [''<>'']) @ [''<>''])) =
        (?K @ [''<>'']) @ [''<>'']"
      by (simp only: py_split_join [OF free]) simp
    then have "format_key_combo (parse_key_combo (combo_string_of mods c)) =
        py_join ''+'' (map format_part ((?K @ [''<>'']) @ [''<>'']))"
      by (simp only: format_key_combo_def parsed)
    also have "map format_part ((?K @ [''<>'']) @ [''<>'']) = ?C @ [[], []]"
      by (simp add: KC [simplified] format_part_brackets comp_def)
    also have "py_join ''+'' (?C @ [[], []]) = py_join ''+'' (?C @ [[] @ ''+'' @ []])"
      by (rule py_join_last_two)
    finally show ?thesis
      by (simp add: spec_canonical_form_def True upper_char_plus)
  qed
qed

theorem format_parse_canonical_witness:
  "is_modifier_alias ''cTRL'' \<and> is_modifier_alias ''aLt'' \<and> is_printable (CHR ''1'') \<and>
   combo_string_of [''cTRL'', ''aLt''] (CHR ''1'') = ''cTRL+aLt+1'' \<and>
   format_key_combo (parse_key_combo ''cTRL+aLt+1'') = ''Ctrl+Alt+1'' \<and>
   is_modifier_alias ''win'' \<and> is_printable (CHR ''a'') \<and>
   combo_string_of [''win''] (CHR ''a'') = ''win+a'' \<and>
   format_key_combo (parse_key_combo ''win+a'') = ''Super+A''"
proof -
  have a: "\<forall>t \<in> set [''cTRL'', ''aLt'']. is_modifier_alias t" by code_simp
  have b: "is_printable (CHR ''1'')" "CHR ''1'' \<noteq> CHR '' ''" "CHR ''1'' \<noteq> CHR ''<''"
    "CHR ''1'' \<noteq> CHR ''>''" by code_simp+
  have c: "combo_string_of [''cTRL'', ''aLt''] (CHR ''1'') = ''cTRL+aLt+1''"
    "spec_canonical_form [''cTRL'', ''aLt''] (CHR ''1'') = ''Ctrl+Alt+1''" by code_simp+
  have a': "\<forall>t \<in> set [''win'']. is_modifier_alias t" by code_simp
  have b': "is_printable (CHR ''a'')" "CHR ''a'' \<noteq> CHR '' ''" "CHR ''a'' \<noteq> CHR ''<''"
    "CHR ''a'' \<noteq> CHR ''>''" by code_simp+
  have c': "combo_string_of [''win''] (CHR ''a'') = ''win+a''"
    "spec_canonical_form [''win''] (CHR ''a'') = ''Super+A''" by code_simp+
  from format_parse_canonical [OF a b] format_parse_canonical [OF a' b'] a a' b(1) b'(1) c c'
  show ?thesis by simp
qed

text \<open>
  C6. For a combo string of modifier-alias tokens and a single printable character,
  \<open>format_key_combo(parse_key_combo(combo))\<close> should be the canonical capitalized form.
  The code breaks this at the printable character \<open><\<close>: \<open>ctrl+<\<close> parses to
  \<open><ctrl>+<\<close>, and \<open>format_key_combo\<close> strips angle brackets from every part, which
  unwraps \<open><ctrl>\<close> but also deletes the key \<open><\<close>, so the result is \<open>Ctrl+\<close> where the
  canonical form is \<open>Ctrl+<\<close>.
\<close>

theorem format_key_combo_drops_angle_bracket:
  "is_modifier_alias ''ctrl'' \<and> is_printable (CHR ''<'') \<and>
   combo_string_of [''ctrl''] (CHR ''<'') = ''ctrl+<'' \<and>
   format_key_combo (parse_key_combo ''ctrl+<'') = ''Ctrl+'' \<and>
   spec_canonical_form [''ctrl''] (CHR ''<'') = ''Ctrl+<'' \<and>
   format_key_combo (parse_key_combo (combo_string_of [''ctrl''] (CHR ''<''))) \<noteq>
     spec_canonical_form [''ctrl''] (CHR ''<'')"
  by code_simp

end
